theory Spec2Isabelle
  imports Complex_Main "HOL-Library.Word"
begin

section \<open>JavaScript numbers\<close>

text \<open>
  Every number of the program is an IEEE double. Finite doubles are modelled as reals
  (rounding, overflow of finite arithmetic and the sign of zero are not modelled); the three
  special values are kept, because the source writes \<^verbatim>\<open>Infinity\<close> literally and
  \<^verbatim>\<open>parseFloat\<close> returns \<^verbatim>\<open>NaN\<close> on text that is not a number.
\<close>

datatype jsnum = Fin real | PInf | NInf | NaN

fun jsNeg :: "jsnum \<Rightarrow> jsnum" where
  "jsNeg (Fin a) = Fin (- a)"
| "jsNeg PInf = NInf"
| "jsNeg NInf = PInf"
| "jsNeg NaN = NaN"

fun jsAdd :: "jsnum \<Rightarrow> jsnum \<Rightarrow> jsnum" where
  "jsAdd (Fin a) (Fin b) = Fin (a + b)"
| "jsAdd (Fin a) PInf = PInf"
| "jsAdd (Fin a) NInf = NInf"
| "jsAdd PInf (Fin b) = PInf"
| "jsAdd PInf PInf = PInf"
| "jsAdd PInf NInf = NaN"
| "jsAdd NInf (Fin b) = NInf"
| "jsAdd NInf PInf = NaN"
| "jsAdd NInf NInf = NInf"
| "jsAdd NaN b = NaN"
| "jsAdd a NaN = NaN"

definition jsSub :: "jsnum \<Rightarrow> jsnum \<Rightarrow> jsnum" where
  "jsSub a b = jsAdd a (jsNeg b)"

text \<open>The sign of an infinite product or quotient: \<open>pos\<close> tells whether it is positive.\<close>

definition signedInf :: "bool \<Rightarrow> jsnum" where
  "signedInf pos = (if pos then PInf else NInf)"

fun jsMul :: "jsnum \<Rightarrow> jsnum \<Rightarrow> jsnum" where
  "jsMul (Fin a) (Fin b) = Fin (a * b)"
| "jsMul (Fin a) PInf = (if a = 0 then NaN else signedInf (0 < a))"
| "jsMul (Fin a) NInf = (if a = 0 then NaN else signedInf (a < 0))"
| "jsMul PInf (Fin b) = (if b = 0 then NaN else signedInf (0 < b))"
| "jsMul NInf (Fin b) = (if b = 0 then NaN else signedInf (b < 0))"
| "jsMul PInf PInf = PInf"
| "jsMul PInf NInf = NInf"
| "jsMul NInf PInf = NInf"
| "jsMul NInf NInf = PInf"
| "jsMul NaN b = NaN"
| "jsMul a NaN = NaN"

text \<open>Division; a zero divisor is taken as \<open>+0\<close>.\<close>

fun jsDiv :: "jsnum \<Rightarrow> jsnum \<Rightarrow> jsnum" where
  "jsDiv (Fin a) (Fin b) =
     (if b = 0 then (if a = 0 then NaN else signedInf (0 < a)) else Fin (a / b))"
| "jsDiv (Fin a) PInf = Fin 0"
| "jsDiv (Fin a) NInf = Fin 0"
| "jsDiv PInf (Fin b) = signedInf (0 \<le> b)"
| "jsDiv NInf (Fin b) = signedInf (b < 0)"
| "jsDiv PInf PInf = NaN"
| "jsDiv PInf NInf = NaN"
| "jsDiv NInf PInf = NaN"
| "jsDiv NInf NInf = NaN"
| "jsDiv NaN b = NaN"
| "jsDiv a NaN = NaN"

text \<open>The remainder operator \<^verbatim>\<open>%\<close>: the result has the sign of the dividend.\<close>

definition jsTrunc :: "real \<Rightarrow> int" where
  "jsTrunc q = (if 0 \<le> q then \<lfloor>q\<rfloor> else \<lceil>q\<rceil>)"

fun jsMod :: "jsnum \<Rightarrow> jsnum \<Rightarrow> jsnum" where
  "jsMod (Fin a) (Fin b) = (if b = 0 then NaN else Fin (a - b * of_int (jsTrunc (a / b))))"
| "jsMod (Fin a) PInf = Fin a"
| "jsMod (Fin a) NInf = Fin a"
| "jsMod PInf b = NaN"
| "jsMod NInf b = NaN"
| "jsMod NaN b = NaN"
| "jsMod (Fin a) NaN = NaN"

fun Math_abs :: "jsnum \<Rightarrow> jsnum" where
  "Math_abs (Fin a) = Fin \<bar>a\<bar>"
| "Math_abs PInf = PInf"
| "Math_abs NInf = PInf"
| "Math_abs NaN = NaN"

fun Math_floor :: "jsnum \<Rightarrow> jsnum" where
  "Math_floor (Fin a) = Fin (of_int \<lfloor>a\<rfloor>)"
| "Math_floor PInf = PInf"
| "Math_floor NInf = NInf"
| "Math_floor NaN = NaN"

fun Math_sqrt :: "jsnum \<Rightarrow> jsnum" where
  "Math_sqrt (Fin a) = (if a < 0 then NaN else Fin (sqrt a))"
| "Math_sqrt PInf = PInf"
| "Math_sqrt NInf = NaN"
| "Math_sqrt NaN = NaN"

text \<open>\<^verbatim>\<open>Math.pow(a, 2)\<close>, the only power the source takes.\<close>

fun Math_pow2 :: "jsnum \<Rightarrow> jsnum" where
  "Math_pow2 (Fin a) = Fin (a ^ 2)"
| "Math_pow2 PInf = PInf"
| "Math_pow2 NInf = PInf"
| "Math_pow2 NaN = NaN"

fun Math_cos :: "jsnum \<Rightarrow> jsnum" where
  "Math_cos (Fin a) = Fin (cos a)"
| "Math_cos PInf = NaN"
| "Math_cos NInf = NaN"
| "Math_cos NaN = NaN"

fun Math_sin :: "jsnum \<Rightarrow> jsnum" where
  "Math_sin (Fin a) = Fin (sin a)"
| "Math_sin PInf = NaN"
| "Math_sin NInf = NaN"
| "Math_sin NaN = NaN"

text \<open>Comparisons: every comparison with \<open>NaN\<close> is false.\<close>

fun jsLt :: "jsnum \<Rightarrow> jsnum \<Rightarrow> bool" where
  "jsLt (Fin a) (Fin b) = (a < b)"
| "jsLt (Fin a) PInf = True"
| "jsLt (Fin a) NInf = False"
| "jsLt PInf b = False"
| "jsLt NInf (Fin b) = True"
| "jsLt NInf PInf = True"
| "jsLt NInf NInf = False"
| "jsLt NaN b = False"
| "jsLt a NaN = False"

fun jsLe :: "jsnum \<Rightarrow> jsnum \<Rightarrow> bool" where
  "jsLe (Fin a) (Fin b) = (a \<le> b)"
| "jsLe (Fin a) PInf = True"
| "jsLe (Fin a) NInf = False"
| "jsLe PInf (Fin b) = False"
| "jsLe PInf PInf = True"
| "jsLe PInf NInf = False"
| "jsLe NInf (Fin b) = True"
| "jsLe NInf PInf = True"
| "jsLe NInf NInf = True"
| "jsLe NaN b = False"
| "jsLe a NaN = False"

definition jsGt :: "jsnum \<Rightarrow> jsnum \<Rightarrow> bool" where
  "jsGt a b = jsLt b a"

text \<open>\<^verbatim>\<open>Math.min\<close> and \<^verbatim>\<open>Math.max\<close> of two arguments: \<open>NaN\<close> if either is.\<close>

fun Math_min :: "jsnum \<Rightarrow> jsnum \<Rightarrow> jsnum" where
  "Math_min NaN b = NaN"
| "Math_min a NaN = NaN"
| "Math_min a b = (if jsLe a b then a else b)"

fun Math_max :: "jsnum \<Rightarrow> jsnum \<Rightarrow> jsnum" where
  "Math_max NaN b = NaN"
| "Math_max a NaN = NaN"
| "Math_max a b = (if jsLe a b then b else a)"

text \<open>
  Reading a property that may be absent: \<open>None\<close> is \<^verbatim>\<open>undefined\<close>, which arithmetic
  converts to \<open>NaN\<close>.
\<close>

fun toNumber :: "jsnum option \<Rightarrow> jsnum" where
  "toNumber None = NaN"
| "toNumber (Some a) = a"

section \<open>JavaScript strings\<close>

text \<open>
  Strings are lists of 8-bit characters; the white space of \<^verbatim>\<open>trim\<close> and of the
  regular expression class \<^verbatim>\<open>\s\<close> is the ASCII white space.
\<close>

definition isWhite :: "char \<Rightarrow> bool" where
  "isWhite c = (c = CHR '' '' \<or> c = CHR 0x09 \<or> c = CHR 0x0A \<or> c = CHR 0x0B
                \<or> c = CHR 0x0C \<or> c = CHR 0x0D)"

definition isDigit :: "char \<Rightarrow> bool" where
  "isDigit c = (c = CHR ''0'' \<or> c = CHR ''1'' \<or> c = CHR ''2'' \<or> c = CHR ''3'' \<or> c = CHR ''4''
                \<or> c = CHR ''5'' \<or> c = CHR ''6'' \<or> c = CHR ''7'' \<or> c = CHR ''8'' \<or> c = CHR ''9'')"

definition trim :: "string \<Rightarrow> string" where
  "trim s = rev (dropWhile isWhite (rev (dropWhile isWhite s)))"

text \<open>\<^verbatim>\<open>s.split(sep)\<close> for a separator of one character.\<close>

fun splitOn :: "char \<Rightarrow> string \<Rightarrow> string list" where
  "splitOn sep [] = [[]]"
| "splitOn sep (c # cs) =
     (if c = sep then [] # splitOn sep cs
      else (case splitOn sep cs of [] \<Rightarrow> [[c]] | p # ps \<Rightarrow> (c # p) # ps))"

fun startsWith :: "string \<Rightarrow> string \<Rightarrow> bool" where
  "startsWith s [] = True"
| "startsWith [] (p # ps) = False"
| "startsWith (c # cs) (p # ps) = (c = p \<and> startsWith cs ps)"

fun str_includes :: "string \<Rightarrow> string \<Rightarrow> bool" where
  "str_includes [] pat = startsWith [] pat"
| "str_includes (c # cs) pat = (startsWith (c # cs) pat \<or> str_includes cs pat)"

subsection \<open>parseFloat\<close>

text \<open>
  The builtin \<^verbatim>\<open>parseFloat\<close>: leading white space is skipped, then the longest prefix that
  is a decimal literal (sign, digits, fraction, exponent, or \<^verbatim>\<open>Infinity\<close>) is read, and the
  result is \<open>NaN\<close> when there is no such prefix.
\<close>

definition digitVal :: "char \<Rightarrow> nat" where
  "digitVal c = of_char c - 48"

definition digitsVal :: "string \<Rightarrow> nat" where
  "digitsVal ds = foldl (\<lambda>acc c. acc * 10 + digitVal c) 0 ds"

definition isSign :: "char \<Rightarrow> bool" where
  "isSign c = (c = CHR ''-'' \<or> c = CHR ''+'')"

definition dropSign :: "string \<Rightarrow> string" where
  "dropSign s = (case s of [] \<Rightarrow> [] | c # r \<Rightarrow> if isSign c then r else s)"

definition isNegative :: "string \<Rightarrow> bool" where
  "isNegative s = (case s of [] \<Rightarrow> False | c # r \<Rightarrow> c = CHR ''-'')"

definition exponentPart :: "string \<Rightarrow> int" where
  "exponentPart r =
     (case r of
        [] \<Rightarrow> 0
      | c # r' \<Rightarrow>
          if c = CHR ''e'' \<or> c = CHR ''E'' then
            (let ds = takeWhile isDigit (dropSign r')
             in if ds = [] then 0
                else if isNegative r' then - int (digitsVal ds) else int (digitsVal ds))
          else 0)"

definition scale10 :: "real \<Rightarrow> int \<Rightarrow> real" where
  "scale10 m e = (if 0 \<le> e then m * 10 ^ nat e else m / 10 ^ nat (- e))"

definition parseFloat :: "string \<Rightarrow> jsnum" where
  "parseFloat input =
     (let s0 = dropWhile isWhite input;
          s1 = dropSign s0;
          ip = takeWhile isDigit s1;
          r1 = dropWhile isDigit s1;
          hasDot = (case r1 of [] \<Rightarrow> False | c # r \<Rightarrow> c = CHR ''.'');
          fp = (if hasDot then takeWhile isDigit (tl r1) else []);
          r2 = (if hasDot then dropWhile isDigit (tl r1) else r1);
          v = (if startsWith s1 ''Infinity'' then PInf
               else if ip = [] \<and> fp = [] then NaN
               else Fin (scale10 (real (digitsVal ip) + real (digitsVal fp) / 10 ^ length fp)
                           (exponentPart r2)))
      in if isNegative s0 then jsNeg v else v)"

section \<open>seatCoordinateParser.js\<close>

record point3 =
  coord_x :: jsnum
  coord_y :: jsnum
  coord_z :: jsnum

subsection \<open>The regular expression of the parser\<close>

text \<open>
  \<^verbatim>\<open>/<Vector\s*\(([-\d\.\s,]+)\)>/\<close>. The character that has to follow \<^verbatim>\<open>\s*\<close> is not
  white space and the one that has to follow the class is not in the class, so the greedy
  runs never give anything back: at a start position the match is decided by the longest runs.
  \<open>regexMatch\<close> is \<^verbatim>\<open>line.match(...)\<close> (the leftmost match) and returns group 1.
\<close>

definition inClass :: "char \<Rightarrow> bool" where
  "inClass c = (c = CHR ''-'' \<or> isDigit c \<or> c = CHR ''.'' \<or> isWhite c \<or> c = CHR '','')"

definition matchAt :: "string \<Rightarrow> string option" where
  "matchAt s =
     (if startsWith s ''<Vector'' then
        (case dropWhile isWhite (drop 7 s) of
           [] \<Rightarrow> None
         | c # r \<Rightarrow>
             if c = CHR ''('' \<and> takeWhile inClass r \<noteq> [] \<and> startsWith (dropWhile inClass r) '')>''
             then Some (takeWhile inClass r) else None)
      else None)"

fun regexMatch :: "string \<Rightarrow> string option" where
  "regexMatch [] = matchAt []"
| "regexMatch (c # cs) =
     (case matchAt (c # cs) of Some g \<Rightarrow> Some g | None \<Rightarrow> regexMatch cs)"

subsection \<open>parseVectorCoordinates\<close>

text \<open>
  \<open>parseLine\<close> is the body of the \<^verbatim>\<open>forEach\<close> callback: the array \<open>coordinates\<close> after
  the callback has run on one line. Every \<^verbatim>\<open>return\<close> of the callback leaves it unchanged.
\<close>

definition parseLine :: "point3 list \<Rightarrow> string \<Rightarrow> point3 list" where
  "parseLine coordinates line0 =
     (let line = trim line0 in
      if line = [] \<or> \<not> str_includes line ''<Vector'' then coordinates
      else
        (case regexMatch line of
           None \<Rightarrow> coordinates
         | Some g \<Rightarrow>
             (let parts = map (\<lambda>part. parseFloat (trim part)) (splitOn CHR '','' g) in
              if length parts \<noteq> 3 then coordinates
              else coordinates @ [\<lparr>coord_x = parts ! 0, coord_y = parts ! 1, coord_z = parts ! 2\<rparr>])))"

definition parseVectorCoordinates :: "string \<Rightarrow> point3 list" where
  "parseVectorCoordinates text =
     (if text = [] then [] else foldl parseLine [] (splitOn CHR 0x0A text))"

text \<open>
  The triple a line stands for, if any: the line matches the pattern and its group has
  exactly three comma-separated fields. This is the reading of one record that
  \<open>parseVectorCoordinates\<close> is compared with below.
\<close>

definition vectorTriple :: "string \<Rightarrow> point3 option" where
  "vectorTriple line =
     (case regexMatch (trim line) of
        None \<Rightarrow> None
      | Some g \<Rightarrow>
          (case map (\<lambda>part. parseFloat (trim part)) (splitOn CHR '','' g) of
             [a, b, c] \<Rightarrow> Some \<lparr>coord_x = a, coord_y = b, coord_z = c\<rparr>
           | _ \<Rightarrow> None))"



subsection \<open>convertToThreeCoordinates, generateSeatsFromCoordinates\<close>

definition convertToThreeCoordinates :: "point3 list \<Rightarrow> point3 list" where
  "convertToThreeCoordinates coordinates =
     map (\<lambda>coord. \<lparr>coord_x = coord_x coord, coord_y = coord_z coord, coord_z = coord_y coord\<rparr>)
       coordinates"

text \<open>
  A seat object. \<open>seat_section\<close> is \<open>None\<close> when the property holds \<^verbatim>\<open>undefined\<close>, and
  \<open>seat_originalIndex\<close> is \<open>None\<close> on the seats that do not have the property.
\<close>

record seat =
  seat_id :: string
  seat_section :: "string option"
  seat_row :: jsnum
  seat_number :: jsnum
  seat_price :: jsnum
  seat_coordinates :: point3
  seat_originalIndex :: "nat option"

text \<open>
  Numbers and \<^verbatim>\<open>undefined\<close> inside a template literal. The source only prints numbers
  that come out of \<^verbatim>\<open>Math.floor\<close> or out of an integer field, so a finite number is
  printed as the decimal numeral of its integer part.
\<close>

definition digitChar :: "nat \<Rightarrow> char" where
  "digitChar d = char_of (48 + d)"

function showNat :: "nat \<Rightarrow> string" where
  "showNat n = (if n < 10 then [digitChar n] else showNat (n div 10) @ [digitChar (n mod 10)])"
  by pat_completeness auto
termination
  by (relation "measure (\<lambda>n. n)") auto

definition showInt :: "int \<Rightarrow> string" where
  "showInt i = (if i < 0 then CHR ''-'' # showNat (nat (- i)) else showNat (nat i))"

fun jsToString :: "jsnum \<Rightarrow> string" where
  "jsToString (Fin a) = showInt \<lfloor>a\<rfloor>"
| "jsToString PInf = ''Infinity''"
| "jsToString NInf = ''-Infinity''"
| "jsToString NaN = ''NaN''"

fun strOrUndefined :: "string option \<Rightarrow> string" where
  "strOrUndefined None = ''undefined''"
| "strOrUndefined (Some s) = s"

definition generateSeat :: "point3 \<Rightarrow> seat" where
  "generateSeat coord =
     (let section = (if jsGt (coord_x coord) (Fin 0) then ''B'' else ''A'');
          row = jsAdd (jsMod (Math_floor (jsMul (Math_abs (coord_y coord)) (Fin 10))) (Fin 10)) (Fin 1);
          number = jsAdd (jsMod (Math_floor (jsMul (Math_abs (coord_x coord)) (Fin 10))) (Fin 10)) (Fin 1);
          height = Math_abs (coord_z coord);
          price = Math_floor (jsAdd (Fin 100) (jsMul height (Fin 50)))
      in \<lparr>seat_id = section @ jsToString row @ jsToString number,
          seat_section = Some section,
          seat_row = row,
          seat_number = number,
          seat_price = price,
          seat_coordinates = coord,
          seat_originalIndex = None\<rparr>)"

definition generateSeatsFromCoordinates :: "point3 list \<Rightarrow> seat list" where
  "generateSeatsFromCoordinates coordinates = map generateSeat coordinates"

definition parseAndGenerateSeats :: "string \<Rightarrow> seat list" where
  "parseAndGenerateSeats text =
     (let parsedCoordinates = parseVectorCoordinates text;
          threeCoordinates = convertToThreeCoordinates parsedCoordinates
      in generateSeatsFromCoordinates threeCoordinates)"

section \<open>coordinateLoader.js\<close>

datatype quadrant = topLeft | topRight | bottomLeft | bottomRight

fun sectionMap :: "quadrant \<Rightarrow> string list" where
  "sectionMap topLeft = [''A'', ''B'', ''C'']"
| "sectionMap topRight = [''D'', ''E'', ''F'']"
| "sectionMap bottomLeft = [''G'', ''H'', ''J'']"
| "sectionMap bottomRight = [''K'', ''L'', ''M'']"

record priceTier =
  maxDistance :: jsnum
  price :: jsnum

definition priceTiers :: "priceTier list" where
  "priceTiers =
     [\<lparr>maxDistance = Fin 0.2, price = Fin 250\<rparr>,
      \<lparr>maxDistance = Fin 0.4, price = Fin 200\<rparr>,
      \<lparr>maxDistance = Fin 0.6, price = Fin 150\<rparr>,
      \<lparr>maxDistance = Fin 0.8, price = Fin 120\<rparr>,
      \<lparr>maxDistance = PInf, price = Fin 100\<rparr>]"

text \<open>\<^verbatim>\<open>xs[i]\<close> for a number \<open>i\<close>: \<^verbatim>\<open>undefined\<close> unless \<open>i\<close> is an index of the array.\<close>

fun arrayIndex :: "'a list \<Rightarrow> jsnum \<Rightarrow> 'a option" where
  "arrayIndex xs (Fin a) =
     (if 0 \<le> a \<and> a = of_int \<lfloor>a\<rfloor> \<and> nat \<lfloor>a\<rfloor> < length xs then Some (xs ! nat \<lfloor>a\<rfloor>) else None)"
| "arrayIndex xs PInf = None"
| "arrayIndex xs NInf = None"
| "arrayIndex xs NaN = None"

definition seatDistance :: "seat \<Rightarrow> jsnum" where
  "seatDistance seat =
     Math_sqrt (jsAdd (Math_pow2 (coord_x (seat_coordinates seat)))
                      (Math_pow2 (coord_y (seat_coordinates seat))))"

definition enhanceSeat :: "seat \<Rightarrow> nat \<Rightarrow> seat" where
  "enhanceSeat seat index =
     (let quadrant =
            (if jsLt (coord_x (seat_coordinates seat)) (Fin 0)
             then (if jsLt (coord_y (seat_coordinates seat)) (Fin 0) then bottomLeft else topLeft)
             else (if jsLt (coord_y (seat_coordinates seat)) (Fin 0) then bottomRight else topRight));
          distance = seatDistance seat;
          priceTier = find (\<lambda>tier. jsLe distance (maxDistance tier)) priceTiers;
          price = (case priceTier of Some tier \<Rightarrow> price tier | None \<Rightarrow> Fin 100);
          sectionList = sectionMap quadrant;
          sectionIndex =
            Math_min (Math_floor (jsMul distance (Fin (real (length sectionList)))))
                     (Fin (real (length sectionList) - 1));
          section = arrayIndex sectionList sectionIndex;
          row = jsAdd (Math_floor (jsMul (Math_abs (coord_y (seat_coordinates seat))) (Fin 10))) (Fin 1);
          number = jsAdd (Math_floor (jsMul (Math_abs (coord_x (seat_coordinates seat))) (Fin 10))) (Fin 1)
      in \<lparr>seat_id = strOrUndefined section @ jsToString row @ ''-'' @ jsToString number,
          seat_section = section,
          seat_row = row,
          seat_number = number,
          seat_price = price,
          seat_coordinates = seat_coordinates seat,
          seat_originalIndex = Some index\<rparr>)"

definition enhanceSeats :: "seat list \<Rightarrow> seat list" where
  "enhanceSeats basicSeats = map (\<lambda>(seat, index). enhanceSeat seat index)
                               (zip basicSeats [0 ..< length basicSeats])"

text \<open>
  What the environment answers to \<^verbatim>\<open>fetch\<close>: a settled promise is either rejected with
  an error or resolved with a value.
\<close>

datatype jserror = JsError (error_name: string) (error_message: string)

definition newError :: "string \<Rightarrow> jserror" where
  "newError msg = JsError ''Error'' msg"

datatype 'a settled = Rejected jserror | Resolved 'a

record response =
  resp_ok :: bool
  resp_status :: nat
  resp_statusText :: string
  resp_text :: "string settled"

text \<open>
  \<open>loadSeatsFromFile_try\<close> is the \<^verbatim>\<open>try\<close> block (\<open>Inl\<close>: the error it throws) and
  \<open>loadSeatsFromFile\<close> the whole function, whose \<^verbatim>\<open>catch\<close> returns the empty array.
\<close>

definition loadSeatsFromFile_try :: "response settled \<Rightarrow> jserror + seat list" where
  "loadSeatsFromFile_try fetched =
     (case fetched of
        Rejected e \<Rightarrow> Inl e
      | Resolved r \<Rightarrow>
          if \<not> resp_ok r then
            Inl (newError (''Failed to load coordinates.txt: '' @ showNat (resp_status r)
                            @ '' '' @ resp_statusText r))
          else
            (case resp_text r of
               Rejected e \<Rightarrow> Inl e
             | Resolved text \<Rightarrow> Inr (enhanceSeats (parseAndGenerateSeats text))))"

definition loadSeatsFromFile :: "response settled \<Rightarrow> seat list" where
  "loadSeatsFromFile fetched =
     (case loadSeatsFromFile_try fetched of Inl error \<Rightarrow> [] | Inr enhancedSeats \<Rightarrow> enhancedSeats)"

section \<open>App.js: the seat set\<close>

definition defaultSeat :: "string \<Rightarrow> string \<Rightarrow> real \<Rightarrow> real \<Rightarrow> real \<Rightarrow> real \<Rightarrow> real \<Rightarrow> real \<Rightarrow> seat" where
  "defaultSeat i s r n p cx cy cz =
     \<lparr>seat_id = i, seat_section = Some s, seat_row = Fin r, seat_number = Fin n, seat_price = Fin p,
      seat_coordinates = \<lparr>coord_x = Fin cx, coord_y = Fin cy, coord_z = Fin cz\<rparr>,
      seat_originalIndex = None\<rparr>"

definition DEFAULT_SEATS :: "seat list" where
  "DEFAULT_SEATS =
     [defaultSeat ''A1'' ''A'' 1 1 150 (-5) 2 10,
      defaultSeat ''A2'' ''A'' 1 2 150 (-3) 2 10,
      defaultSeat ''B1'' ''B'' 1 1 180 5 2 10,
      defaultSeat ''B2'' ''B'' 1 2 180 3 2 10,
      defaultSeat ''C1'' ''C'' 5 1 100 (-7) 5 15,
      defaultSeat ''C2'' ''C'' 5 2 100 7 5 15]"

record app_state =
  availableSeats :: "seat list"
  selectedSeat :: "seat option"
  viewingMode :: bool
  purchaseComplete :: bool
  viewKey :: nat
  showImporter :: bool
  showModelUploader :: bool
  isLoadingSeats :: bool
  fileSeatsLoaded :: bool
  customModelUrl :: "string option"

definition initialApp :: app_state where
  "initialApp =
     \<lparr>availableSeats = DEFAULT_SEATS, selectedSeat = None, viewingMode = False,
      purchaseComplete = False, viewKey = 0, showImporter = False, showModelUploader = False,
      isLoadingSeats = False, fileSeatsLoaded = False, customModelUrl = None\<rparr>"

text \<open>
  The effect that runs when the application mounts. \<open>loadSeatsFromFile\<close> returns an array
  on every path, so the \<^verbatim>\<open>catch\<close> of the effect has nothing to catch.
\<close>

definition loadSeats :: "response settled \<Rightarrow> app_state \<Rightarrow> app_state" where
  "loadSeats fetched s =
     (let s1 = s\<lparr>isLoadingSeats := True\<rparr>;
          seats = loadSeatsFromFile fetched;
          s2 = (if 0 < length seats then s1\<lparr>availableSeats := seats, fileSeatsLoaded := True\<rparr>
                else s1)
      in s2\<lparr>isLoadingSeats := False\<rparr>)"

definition handleSeatsImported :: "seat list \<Rightarrow> app_state \<Rightarrow> app_state" where
  "handleSeatsImported seats s =
     (if 0 < length seats
      then s\<lparr>availableSeats := seats, selectedSeat := None, showImporter := False\<rparr>
      else s)"

definition resetToFileSeats :: "response settled \<Rightarrow> app_state \<Rightarrow> app_state" where
  "resetToFileSeats fetched s =
     (let s1 = s\<lparr>isLoadingSeats := True\<rparr>;
          seats = loadSeatsFromFile fetched;
          s2 = (if 0 < length seats then s1\<lparr>availableSeats := seats, selectedSeat := None\<rparr>
                else s1)
      in s2\<lparr>isLoadingSeats := False\<rparr>)"

definition resetToDefaultSeats :: "app_state \<Rightarrow> app_state" where
  "resetToDefaultSeats s = s\<lparr>availableSeats := DEFAULT_SEATS\<rparr>"

definition handleModelUploaded :: "string \<Rightarrow> string \<Rightarrow> app_state \<Rightarrow> app_state" where
  "handleModelUploaded blobUrl fileName s = s\<lparr>customModelUrl := Some blobUrl, viewKey := viewKey s + 1\<rparr>"

text \<open>
  \<open>handleImport\<close> of the CoordinateImporter component, on the text of its text area; the
  settings panel passes \<open>handleSeatsImported\<close> as \<open>onSeatsGenerated\<close>. The flag
  \<open>isImporting\<close> of the component is set and reset inside the handler and is left out.
\<close>

definition handleImport :: "string \<Rightarrow> (seat list \<Rightarrow> app_state \<Rightarrow> app_state) \<Rightarrow> app_state \<Rightarrow> app_state" where
  "handleImport coordinates onSeatsGenerated s =
     (if trim coordinates = [] then s
      else (let seats = parseAndGenerateSeats coordinates
            in if 0 < length seats then onSeatsGenerated seats s else s))"

section \<open>StadiumMap.js: the transform of the seat map\<close>

record coord2 =
  c2_x :: jsnum
  c2_z :: jsnum

record bounds =
  minX :: jsnum
  maxX :: jsnum
  minZ :: jsnum
  maxZ :: jsnum

text \<open>
  The object \<open>calcScalingFactors\<close> returns. Its early return has the properties
  \<^verbatim>\<open>xScale\<close> and \<^verbatim>\<open>zScale\<close>, its last return has \<^verbatim>\<open>scale\<close>; a property the object does
  not have is \<open>None\<close>.
\<close>

record scalingFactors =
  sf_scale :: "jsnum option"
  sf_xScale :: "jsnum option"
  sf_zScale :: "jsnum option"
  sf_xOffset :: jsnum
  sf_zOffset :: jsnum

definition boundsStep :: "bounds \<Rightarrow> coord2 \<Rightarrow> bounds" where
  "boundsStep b coord =
     \<lparr>minX = Math_min (minX b) (c2_x coord),
      maxX = Math_max (maxX b) (c2_x coord),
      minZ = Math_min (minZ b) (c2_z coord),
      maxZ = Math_max (maxZ b) (c2_z coord)\<rparr>"

definition calcScalingFactors :: "coord2 list \<Rightarrow> scalingFactors" where
  "calcScalingFactors coordinates =
     (if length coordinates = 0 then
        \<lparr>sf_scale = None, sf_xScale = Some (Fin 1), sf_zScale = Some (Fin 1),
         sf_xOffset = Fin 0, sf_zOffset = Fin 0\<rparr>
      else
        (let b = foldl boundsStep \<lparr>minX = PInf, maxX = NInf, minZ = PInf, maxZ = NInf\<rparr> coordinates;
             width = jsSub (maxX b) (minX b);
             height = jsSub (maxZ b) (minZ b);
             xScale = (if jsGt width (Fin 0) then jsDiv (Fin 20) width else Fin 1);
             zScale = (if jsGt height (Fin 0) then jsDiv (Fin 20) height else Fin 1);
             scale = jsMul (Math_min xScale zScale) (Fin 0.95);
             centerX = jsDiv (jsAdd (minX b) (maxX b)) (Fin 2);
             centerZ = jsDiv (jsAdd (minZ b) (maxZ b)) (Fin 2)
         in \<lparr>sf_scale = Some scale, sf_xScale = None, sf_zScale = None,
             sf_xOffset = jsNeg centerX, sf_zOffset = jsNeg centerZ\<rparr>))"

record transformations =
  tf_scale :: jsnum
  tf_rotation :: jsnum
  tf_translateX :: jsnum
  tf_translateY :: jsnum
  tf_baseScale :: "jsnum option"
  tf_baseOffset :: coord2

text \<open>
  The initial state of the transformations when nothing is saved in the local storage.
\<close>

definition initialTransformations :: transformations where
  "initialTransformations =
     \<lparr>tf_scale = Fin 1, tf_rotation = Fin 0, tf_translateX = Fin 0, tf_translateY = Fin 0,
      tf_baseScale = Some (Fin 1), tf_baseOffset = \<lparr>c2_x = Fin 0, c2_z = Fin 0\<rparr>\<rparr>"

text \<open>The effect on \<open>seats\<close> that recomputes the base transform.\<close>

definition baseScalingEffect :: "seat list \<Rightarrow> transformations \<Rightarrow> transformations" where
  "baseScalingEffect seats prev =
     (let coordinates = map (\<lambda>seat. \<lparr>c2_x = coord_x (seat_coordinates seat),
                                       c2_z = coord_z (seat_coordinates seat)\<rparr>) seats;
          factors = calcScalingFactors coordinates
      in prev\<lparr>tf_baseScale := sf_scale factors,
              tf_baseOffset := \<lparr>c2_x = sf_xOffset factors, c2_z = sf_zOffset factors\<rparr>\<rparr>)"

text \<open>
  The positions the Seat component computes from its \<open>position\<close> array and the
  transformations; an array of three numbers is a triple.
\<close>

type_synonym vec3 = "jsnum \<times> jsnum \<times> jsnum"

definition Seat_basePosition :: "vec3 \<Rightarrow> transformations \<Rightarrow> vec3" where
  "Seat_basePosition position t =
     (case position of (p0, p1, p2) \<Rightarrow>
        (jsMul (jsAdd p0 (c2_x (tf_baseOffset t))) (toNumber (tf_baseScale t)),
         Fin 1,
         jsMul (jsAdd p2 (c2_z (tf_baseOffset t))) (toNumber (tf_baseScale t))))"

definition Seat_transformedPosition :: "vec3 \<Rightarrow> transformations \<Rightarrow> vec3" where
  "Seat_transformedPosition position t =
     (let angle = jsMul (tf_rotation t) (jsDiv (Fin pi) (Fin 180)) in
      case Seat_basePosition position t of (b0, b1, b2) \<Rightarrow>
        (let flippedX = b0;
             flippedZ = jsNeg b2;
             rotatedX = jsSub (jsMul flippedX (Math_cos angle)) (jsMul flippedZ (Math_sin angle));
             rotatedZ = jsAdd (jsMul flippedX (Math_sin angle)) (jsMul flippedZ (Math_cos angle))
         in (jsAdd (jsMul rotatedX (tf_scale t)) (tf_translateX t),
             b1,
             jsAdd (jsMul rotatedZ (tf_scale t)) (tf_translateY t))))"

text \<open>The position \<open>handleSeatSelect\<close> derives again for the camera target.\<close>

definition handleSeatSelect_transformedPosition :: "seat \<Rightarrow> transformations \<Rightarrow> vec3" where
  "handleSeatSelect_transformedPosition seat t =
     (let basePosition =
            (jsMul (jsAdd (coord_x (seat_coordinates seat)) (c2_x (tf_baseOffset t)))
                   (toNumber (tf_baseScale t)),
             Fin 1,
             jsMul (jsAdd (coord_z (seat_coordinates seat)) (c2_z (tf_baseOffset t)))
                   (toNumber (tf_baseScale t)))
      in case basePosition of (b0, b1, b2) \<Rightarrow>
        (let flippedX = b0;
             flippedZ = jsNeg b2;
             angle = jsMul (tf_rotation t) (jsDiv (Fin pi) (Fin 180));
             rotatedX = jsSub (jsMul flippedX (Math_cos angle)) (jsMul flippedZ (Math_sin angle));
             rotatedZ = jsAdd (jsMul flippedX (Math_sin angle)) (jsMul flippedZ (Math_cos angle))
         in (jsAdd (jsMul rotatedX (tf_scale t)) (tf_translateX t),
             b1,
             jsAdd (jsMul rotatedZ (tf_scale t)) (tf_translateY t))))"

text \<open>The position array the map passes to the Seat component of a seat.\<close>

definition seatPosition :: "seat \<Rightarrow> vec3" where
  "seatPosition seat =
     (coord_x (seat_coordinates seat), coord_y (seat_coordinates seat), coord_z (seat_coordinates seat))"

subsection \<open>The five steps of the composition, one at a time\<close>

text \<open>
  The phases as the specification words them, on the horizontal pair \<open>(x, z)\<close>:
  normalise, mirror the depth axis, rotate, scale, translate. The code's positions are
  compared with their composition.
\<close>

definition normaliseStep :: "transformations \<Rightarrow> jsnum \<times> jsnum \<Rightarrow> jsnum \<times> jsnum" where
  "normaliseStep t p =
     (jsMul (jsAdd (fst p) (c2_x (tf_baseOffset t))) (toNumber (tf_baseScale t)),
      jsMul (jsAdd (snd p) (c2_z (tf_baseOffset t))) (toNumber (tf_baseScale t)))"

definition mirrorStep :: "jsnum \<times> jsnum \<Rightarrow> jsnum \<times> jsnum" where
  "mirrorStep p = (fst p, jsNeg (snd p))"

definition toRadians :: "jsnum \<Rightarrow> jsnum" where
  "toRadians degrees = jsMul degrees (jsDiv (Fin pi) (Fin 180))"

definition rotateStep :: "jsnum \<Rightarrow> jsnum \<times> jsnum \<Rightarrow> jsnum \<times> jsnum" where
  "rotateStep angle p =
     (jsSub (jsMul (fst p) (Math_cos angle)) (jsMul (snd p) (Math_sin angle)),
      jsAdd (jsMul (fst p) (Math_sin angle)) (jsMul (snd p) (Math_cos angle)))"

definition scaleStep :: "jsnum \<Rightarrow> jsnum \<times> jsnum \<Rightarrow> jsnum \<times> jsnum" where
  "scaleStep k p = (jsMul (fst p) k, jsMul (snd p) k)"

definition translateStep :: "jsnum \<Rightarrow> jsnum \<Rightarrow> jsnum \<times> jsnum \<Rightarrow> jsnum \<times> jsnum" where
  "translateStep tx ty p = (jsAdd (fst p) tx, jsAdd (snd p) ty)"

definition composedPosition :: "transformations \<Rightarrow> jsnum \<times> jsnum \<Rightarrow> jsnum \<times> jsnum" where
  "composedPosition t p =
     translateStep (tf_translateX t) (tf_translateY t)
       (scaleStep (tf_scale t)
          (rotateStep (toRadians (tf_rotation t))
             (mirrorStep (normaliseStep t p))))"

definition horizontal :: "vec3 \<Rightarrow> jsnum \<times> jsnum" where
  "horizontal v = (case v of (v0, v1, v2) \<Rightarrow> (v0, v2))"

definition elevation :: "vec3 \<Rightarrow> jsnum" where
  "elevation v = (case v of (v0, v1, v2) \<Rightarrow> v1)"

section \<open>ModelContext.js: the model provider\<close>

text \<open>
  The part of a decoded model the provider looks at: a node of the scene graph has a type,
  may have a geometry, and may have an array of children. \<open>lm_dae\<close> is \<open>None\<close> without the
  property \<^verbatim>\<open>dae\<close>, and \<open>Some nodes\<close> with it, \<open>nodes\<close> being its property \<^verbatim>\<open>nodes\<close>.
  \<open>lm_children\<close> and \<open>lm_geometry\<close> are the properties of the same names of the model
  object itself, which the Collada branch may install as its own scene.
\<close>

datatype object3d =
  Object3D (obj_type: string) (obj_geometry: bool) (obj_children: "object3d list option")

record loaded_model =
  lm_scene :: "object3d option"
  lm_dae :: "object3d option option"
  lm_kinematics :: bool
  lm_geometries :: bool
  lm_materials :: bool
  lm_type :: "string option"
  lm_children :: "object3d list option"
  lm_geometry :: bool

definition isColladaModel :: "loaded_model \<Rightarrow> bool" where
  "isColladaModel model =
     ((lm_dae model \<noteq> None \<and> lm_kinematics model)
      \<or> (lm_geometries model \<and> lm_materials model \<and> lm_kinematics model)
      \<or> (case lm_scene model of None \<Rightarrow> False | Some sc \<Rightarrow> obj_type sc = ''Scene'')
      \<or> (case lm_type model of None \<Rightarrow> False | Some ty \<Rightarrow> str_includes ty ''Scene''))"

definition hasMeaningfulContent :: "object3d list \<Rightarrow> bool" where
  "hasMeaningfulContent children =
     list_ex (\<lambda>child.
        if obj_type child = ''Mesh'' \<and> obj_geometry child then True
        else if (obj_type child = ''Group'' \<or> obj_type child = ''Object3D'')
                \<and> (case obj_children child of None \<Rightarrow> False | Some cs \<Rightarrow> 0 < length cs) then True
        else False) children"

definition isValidModel :: "loaded_model option \<Rightarrow> bool" where
  "isValidModel loadedModel =
     (case loadedModel of
        None \<Rightarrow> False
      | Some m \<Rightarrow>
          if lm_scene m = None \<and> isColladaModel m then True
          else
            (case lm_scene m of
               None \<Rightarrow> False
             | Some sc \<Rightarrow>
                 (case obj_children sc of
                    None \<Rightarrow> False
                  | Some children \<Rightarrow>
                      if \<not> 0 < length children then False
                      else if \<not> hasMeaningfulContent children then False
                      else True)))"

text \<open>
  What the environment answers during one load: the \<^verbatim>\<open>fetch\<close>, \<^verbatim>\<open>response.blob()\<close>, and
  the decoder (\<open>None\<close>: it hands over \<^verbatim>\<open>null\<close>).
\<close>

record http_response =
  http_ok :: bool
  http_status :: nat
  http_statusText :: string

record load_env =
  env_fetch :: "http_response settled"
  env_blob :: "unit settled"
  env_decode :: "loaded_model option settled"

definition toLowerChar :: "char \<Rightarrow> char" where
  "toLowerChar c = (let n = (of_char c :: nat) in if 65 \<le> n \<and> n \<le> 90 then char_of (n + 32) else c)"

definition toUpperChar :: "char \<Rightarrow> char" where
  "toUpperChar c = (let n = (of_char c :: nat) in if 97 \<le> n \<and> n \<le> 122 then char_of (n - 32) else c)"

definition toLowerCase :: "string \<Rightarrow> string" where
  "toLowerCase s = map toLowerChar s"

definition toUpperCase :: "string \<Rightarrow> string" where
  "toUpperCase s = map toUpperChar s"

definition endsWith :: "string \<Rightarrow> string \<Rightarrow> bool" where
  "endsWith s suffix = startsWith (rev s) (rev suffix)"

definition STADIUM_MODEL_PATH :: string where
  "STADIUM_MODEL_PATH = ''/models/stadium.glb''"

definition getStadiumModelPath :: string where
  "getStadiumModelPath = STADIUM_MODEL_PATH"

text \<open>The scene the Collada branch gives a model that came without one.\<close>

definition adaptDae :: "loaded_model \<Rightarrow> loaded_model" where
  "adaptDae m =
     (case lm_scene m of
        Some sc \<Rightarrow> m
      | None \<Rightarrow>
          (case lm_dae m of
             Some nodes \<Rightarrow>
               m\<lparr>lm_scene := Some (Object3D ''Scene'' False
                                      (Some (case nodes of None \<Rightarrow> [] | Some n \<Rightarrow> [n])))\<rparr>
           | None \<Rightarrow>
               m\<lparr>lm_scene := Some (Object3D (case lm_type m of None \<Rightarrow> [] | Some ty \<Rightarrow> ty)
                                      (lm_geometry m) (lm_children m))\<rparr>))"

text \<open>
  The \<^verbatim>\<open>try\<close> block of \<open>loadModel\<close> up to the validation: \<open>Inl\<close> is the error it throws,
  \<open>Inr\<close> the value of \<open>loadedModel\<close>.
\<close>

definition loadModel_try :: "string \<Rightarrow> load_env \<Rightarrow> jserror + loaded_model option" where
  "loadModel_try modelPath env =
     (if endsWith (toLowerCase modelPath) ''.dae'' then
        (case env_fetch env of
           Rejected e \<Rightarrow> Inl e
         | Resolved r \<Rightarrow>
             if \<not> http_ok r then
               Inl (newError (''Failed to fetch DAE model: '' @ showNat (http_status r)
                               @ '' '' @ http_statusText r))
             else
               (case env_decode env of
                  Rejected e \<Rightarrow> Inl e
                | Resolved None \<Rightarrow> Inr None
                | Resolved (Some m) \<Rightarrow> Inr (Some (adaptDae m))))
      else
        (case env_fetch env of
           Rejected e \<Rightarrow> Inl e
         | Resolved r \<Rightarrow>
             if \<not> http_ok r then
               Inl (newError (''Failed to fetch model: '' @ showNat (http_status r)
                               @ '' '' @ http_statusText r))
             else
               (case env_blob env of
                  Rejected e \<Rightarrow> Inl e
                | Resolved u \<Rightarrow>
                    (case env_decode env of
                       Rejected e \<Rightarrow> Inl e
                     | Resolved loadedModel \<Rightarrow> Inr loadedModel))))"

text \<open>The state the provider shows to its consumers.\<close>

record model_state =
  model :: "loaded_model option"
  isLoading :: bool
  error :: "jserror option"

text \<open>
  The state updates \<open>loadModel\<close> makes once the load has settled, each of them under
  \<^verbatim>\<open>if (isMounted)\<close>.
\<close>

definition applyResult :: "bool \<Rightarrow> jserror + loaded_model option \<Rightarrow> model_state \<Rightarrow> model_state" where
  "applyResult isMounted result st =
     (case result of
        Inr (Some loadedModel) \<Rightarrow>
          if isValidModel (Some loadedModel) then
            (if isMounted then st\<lparr>model := Some loadedModel, isLoading := False, error := None\<rparr>
             else st)
          else
            (if isMounted
             then st\<lparr>error := Some (newError ''Model validation failed - invalid structure''),
                     isLoading := False\<rparr>
             else st)
      | Inr None \<Rightarrow>
          if isMounted then st\<lparr>error := Some (newError ''No model was loaded''), isLoading := False\<rparr>
          else st
      | Inl e \<Rightarrow>
          if isMounted then st\<lparr>error := Some e, isLoading := False\<rparr> else st)"

text \<open>
  One run of the effect on \<open>customModelUrl\<close> has its own variable \<open>isMounted\<close>, which its
  clean-up function sets to false (the clean-up also disposes of the geometries and
  materials of the model, which are no part of the visible state). The provider is its
  visible state together with the runs of the effect so far, the latest last.
\<close>

record effect_run =
  run_modelPath :: string
  run_isMounted :: bool

record provider =
  visible :: model_state
  runs :: "effect_run list"

definition initialProvider :: provider where
  "initialProvider = \<lparr>visible = \<lparr>model = None, isLoading = True, error = None\<rparr>, runs = []\<rparr>"

definition cleanup :: "provider \<Rightarrow> provider" where
  "cleanup p =
     (if runs p = [] then p
      else p\<lparr>runs := (runs p)[length (runs p) - 1 :=
                         (runs p ! (length (runs p) - 1))\<lparr>run_isMounted := False\<rparr>]\<rparr>)"

text \<open>
  A load request: \<open>customModelUrl\<close> changes (or the provider mounts), the clean-up of the
  previous run is called and the effect runs again. The number of the new run is its
  position in \<open>runs\<close>.
\<close>

definition load :: "string option \<Rightarrow> provider \<Rightarrow> provider" where
  "load customUrl p =
     (let p1 = cleanup p;
          modelPath = (case customUrl of
                         None \<Rightarrow> getStadiumModelPath
                       | Some url \<Rightarrow> if url = [] then getStadiumModelPath else url)
      in \<lparr>visible = (visible p1)\<lparr>isLoading := True, error := None\<rparr>,
          runs = runs p1 @ [\<lparr>run_modelPath = modelPath, run_isMounted = True\<rparr>]\<rparr>)"

definition latestRun :: "provider \<Rightarrow> nat" where
  "latestRun p = length (runs p) - 1"

text \<open>The load of run \<open>n\<close> settles with what the environment answered.\<close>

definition complete :: "nat \<Rightarrow> load_env \<Rightarrow> provider \<Rightarrow> provider" where
  "complete n env p =
     (if n < length (runs p) then
        p\<lparr>visible := applyResult (run_isMounted (runs p ! n))
                        (loadModel_try (run_modelPath (runs p ! n)) env) (visible p)\<rparr>
      else p)"

text \<open>The provider unmounts: the clean-up of the latest run is called.\<close>

definition unmount :: "provider \<Rightarrow> provider" where
  "unmount p = cleanup p"

text \<open>
  The states the provider can be in: it mounts, and then requests, settlements of loads (of
  any run, in any order, with any answer of the environment) and the unmount follow.
\<close>

inductive reachable :: "provider \<Rightarrow> bool" where
  reach_mount: "reachable (load url initialProvider)"
| reach_load: "reachable p \<Longrightarrow> reachable (load url p)"
| reach_complete: "reachable p \<Longrightarrow> reachable (complete n env p)"
| reach_unmount: "reachable p \<Longrightarrow> reachable (unmount p)"

text \<open>
  Two answers of the environment for the default model: the file is there and decodes to a
  scene without children, and the file is not there.
\<close>

definition emptySceneModel :: loaded_model where
  "emptySceneModel =
     \<lparr>lm_scene = Some (Object3D ''Group'' False (Some [])), lm_dae = None, lm_kinematics = False,
      lm_geometries = False, lm_materials = False, lm_type = None, lm_children = None,
      lm_geometry = False\<rparr>"

definition emptySceneEnv :: load_env where
  "emptySceneEnv =
     \<lparr>env_fetch = Resolved \<lparr>http_ok = True, http_status = 200, http_statusText = ''OK''\<rparr>,
      env_blob = Resolved (),
      env_decode = Resolved (Some emptySceneModel)\<rparr>"

definition notFoundEnv :: load_env where
  "notFoundEnv =
     \<lparr>env_fetch = Resolved \<lparr>http_ok = False, http_status = 404, http_statusText = ''Not Found''\<rparr>,
      env_blob = Resolved (),
      env_decode = Resolved None\<rparr>"

section \<open>modelLoader.js: validation of an uploaded file\<close>

type_synonym byte = "8 word"

record upload_file =
  file_name :: string
  file_arrayBuffer :: "byte list settled"

record validation =
  valid :: bool
  message :: string

definition SUPPORTED_FORMATS :: "string list" where
  "SUPPORTED_FORMATS = [''.glb'', ''.gltf'', ''.fbx'', ''.obj'', ''.stl'', ''.dae'']"

fun join :: "string \<Rightarrow> string list \<Rightarrow> string" where
  "join sep [] = []"
| "join sep [s] = s"
| "join sep (s # t # ts) = s @ sep @ join sep (t # ts)"

text \<open>
  \<^verbatim>\<open>view.getUint32(offset, littleEndian)\<close> on the bytes of the buffer; it throws a
  \<^verbatim>\<open>RangeError\<close> (here \<open>None\<close>) when the four bytes are not all inside the buffer.
\<close>

definition getUint32 :: "byte list \<Rightarrow> nat \<Rightarrow> bool \<Rightarrow> nat option" where
  "getUint32 buf offset littleEndian =
     (case take 4 (drop offset buf) of
        [b0, b1, b2, b3] \<Rightarrow>
          if littleEndian
          then Some (unat b0 + unat b1 * 256 + unat b2 * 65536 + unat b3 * 16777216)
          else Some (unat b3 + unat b2 * 256 + unat b1 * 65536 + unat b0 * 16777216)
      | _ \<Rightarrow> None)"

definition rangeError :: jserror where
  "rangeError = JsError ''RangeError'' ''Offset is outside the bounds of the DataView''"

definition fileExtensionOf :: "string \<Rightarrow> string" where
  "fileExtensionOf name =
     toLowerCase (case rev (splitOn CHR ''.'' name) of [] \<Rightarrow> [] | e # es \<Rightarrow> e)"

definition validateGlb_bytes :: "byte list \<Rightarrow> jserror + validation" where
  "validateGlb_bytes buf =
     (case getUint32 buf 0 False of
        None \<Rightarrow> Inl rangeError
      | Some magic \<Rightarrow>
          if magic \<noteq> 0x676C5446 then
            Inr \<lparr>valid = False, message = ''Invalid GLB file: Missing '' @ [CHR 0x22] @ ''glTF'' @ [CHR 0x22]
                                  @ '' magic bytes''\<rparr>
          else
            (case getUint32 buf 4 True of
               None \<Rightarrow> Inl rangeError
             | Some version \<Rightarrow>
                 if version \<noteq> 2 then
                   Inr \<lparr>valid = False,
                        message = ''Unsupported GLB version: '' @ showNat version
                                  @ ''. Only version 2 is supported.''\<rparr>
                 else
                   (case getUint32 buf 8 True of
                      None \<Rightarrow> Inl rangeError
                    | Some fileLength \<Rightarrow>
                        if length buf < fileLength then
                          Inr \<lparr>valid = False,
                               message = ''Invalid GLB file: Expected length '' @ showNat fileLength
                                         @ '' exceeds actual size '' @ showNat (length buf)\<rparr>
                        else
                          (case getUint32 buf 16 True of
                             None \<Rightarrow> Inl rangeError
                           | Some chunkType \<Rightarrow>
                               if chunkType \<noteq> 0x4E4F534A then
                                 Inr \<lparr>valid = False,
                                      message = ''Invalid GLB file: Missing JSON chunk''\<rparr>
                               else
                                 Inr \<lparr>valid = True,
                                      message = ''GLB file appears to be valid''\<rparr>))))"

definition validateGlbFile_try :: "upload_file \<Rightarrow> jserror + validation" where
  "validateGlbFile_try f =
     (let fileExtension = fileExtensionOf (file_name f);
          isSupported = list_ex (\<lambda>ext. str_includes ext fileExtension) SUPPORTED_FORMATS
      in if \<not> isSupported then
           Inr \<lparr>valid = False,
                message = ''File format .'' @ fileExtension @ '' is not supported. Supported formats: ''
                          @ join '', '' SUPPORTED_FORMATS\<rparr>
         else if fileExtension = ''glb'' then
           (case file_arrayBuffer f of
              Rejected e \<Rightarrow> Inl e
            | Resolved buf \<Rightarrow> validateGlb_bytes buf)
         else
           Inr \<lparr>valid = True, message = toUpperCase fileExtension @ '' file format detected''\<rparr>)"

definition validateGlbFile :: "upload_file \<Rightarrow> validation" where
  "validateGlbFile f =
     (case validateGlbFile_try f of
        Inl e \<Rightarrow> \<lparr>valid = False, message = ''Error validating file: '' @ error_message e\<rparr>
      | Inr v \<Rightarrow> v)"

text \<open>A smallest buffer that passes: the header and the type of the first chunk.\<close>

definition sampleGlb :: "byte list" where
  "sampleGlb = [0x67, 0x6C, 0x54, 0x46, 2, 0, 0, 0, 20, 0, 0, 0, 0, 0, 0, 0, 0x4A, 0x53, 0x4F, 0x4E]"

text \<open>
  \<open>saveModelFile\<close> of the uploader: the error it reports, and the call of
  \<open>onModelUploaded\<close> with the blob URL and the file name, if it makes one (the status
  line and the timers around the call are left out). Only that call gives the provider a
  new model to fetch and decode.
\<close>

record upload_outcome =
  uploadError :: "string option"
  onModelUploaded :: "(string \<times> string) option"

definition saveModelFile :: "upload_file \<Rightarrow> string \<Rightarrow> upload_outcome" where
  "saveModelFile f blobUrl =
     (let v = validateGlbFile f
      in if \<not> valid v then \<lparr>uploadError = Some (message v), onModelUploaded = None\<rparr>
         else \<lparr>uploadError = None, onModelUploaded = Some (blobUrl, file_name f)\<rparr>)"

section \<open>The coordinate parser is best-effort\<close>

lemma parseLine_append: "parseLine acc line = acc @ parseLine [] line"
  by (simp add: parseLine_def Let_def split: option.splits)

lemma foldl_parseLine: "foldl parseLine acc ls = acc @ concat (map (parseLine []) ls)"
proof (induction ls arbitrary: acc)
  case Nil
  then show ?case by simp
next
  case (Cons l ls)
  have "foldl parseLine acc (l # ls) = foldl parseLine (parseLine acc l) ls" by simp
  also have "\<dots> = parseLine acc l @ concat (map (parseLine []) ls)" by (rule Cons.IH)
  also have "\<dots> = acc @ parseLine [] l @ concat (map (parseLine []) ls)"
    using parseLine_append [of acc l] by simp
  finally show ?case by simp
qed

lemma matchAt_startsWith: "matchAt s = Some g \<Longrightarrow> startsWith s ''<Vector''"
  by (auto simp: matchAt_def split: if_splits)

lemma regexMatch_includes: "regexMatch s = Some g \<Longrightarrow> s \<noteq> [] \<and> str_includes s ''<Vector''"
proof (induction s)
  case Nil
  then show ?case by (simp add: matchAt_def)
next
  case (Cons c cs)
  show ?case
  proof (cases "matchAt (c # cs)")
    case None
    with Cons show ?thesis by simp
  next
    case (Some g')
    then have "startsWith (c # cs) ''<Vector''" by (rule matchAt_startsWith)
    then show ?thesis by simp
  qed
qed

lemma length3_cases: "length xs = 3 \<Longrightarrow> \<exists>a b c. xs = [a, b, c]"
  by (cases xs; cases "tl xs"; cases "tl (tl xs)") auto

lemma parseLine_vectorTriple:
  "parseLine [] line = (case vectorTriple line of None \<Rightarrow> [] | Some p \<Rightarrow> [p])"
proof (cases "regexMatch (trim line)")
  case None
  then show ?thesis by (simp add: parseLine_def vectorTriple_def Let_def)
next
  case (Some g)
  then have inc: "trim line \<noteq> []" "str_includes (trim line) ''<Vector''"
    using regexMatch_includes by blast+
  let ?parts = "map (\<lambda>part. parseFloat (trim part)) (splitOn CHR '','' g)"
  show ?thesis
  proof (cases "length ?parts = 3")
    case True
    from length3_cases [OF True] obtain a b c where abc: "?parts = [a, b, c]" by auto
    have "parseLine [] line = [\<lparr>coord_x = ?parts ! 0, coord_y = ?parts ! 1, coord_z = ?parts ! 2\<rparr>]"
      using Some inc True by (simp add: parseLine_def Let_def)
    moreover have "vectorTriple line = Some \<lparr>coord_x = a, coord_y = b, coord_z = c\<rparr>"
      using Some abc by (simp add: vectorTriple_def)
    ultimately show ?thesis using abc by simp
  next
    case False
    have "parseLine [] line = []"
      using Some inc False by (simp add: parseLine_def Let_def)
    moreover have "vectorTriple line = None"
      using Some False by (auto simp: vectorTriple_def split: list.splits)
    ultimately show ?thesis by simp
  qed
qed

lemma map_filter_concat:
  "List.map_filter f xs = concat (map (\<lambda>x. case f x of None \<Rightarrow> [] | Some y \<Rightarrow> [y]) xs)"
  by (induction xs) (auto simp: List.map_filter_simps split: option.splits)

lemma parse_map_filter:
  "parseVectorCoordinates text = List.map_filter vectorTriple (splitOn CHR 0x0A text)"
proof (cases "text = []")
  case True
  have "vectorTriple [] = None" by (simp add: vectorTriple_def trim_def matchAt_def)
  then show ?thesis using True
    by (simp add: parseVectorCoordinates_def List.map_filter_simps)
next
  case False
  have "parseLine [] = (\<lambda>x. case vectorTriple x of None \<Rightarrow> [] | Some y \<Rightarrow> [y])"
    by (rule ext) (rule parseLine_vectorTriple)
  with False show ?thesis
    by (simp add: parseVectorCoordinates_def foldl_parseLine map_filter_concat)
qed

lemma parseLine_skip: "vectorTriple line = None \<Longrightarrow> parseLine acc line = acc"
  using parseLine_append [of acc line] by (simp add: parseLine_vectorTriple)

text \<open>
  Claim C8. The coordinate parser returns exactly the triples of the lines that match the
  pattern and have three fields, in the order of the lines: a line that does not match, or
  whose group does not split into three fields, leaves the result as it was and raises
  nothing; a text none of whose lines gives a triple, the empty text among them, gives the
  empty sequence; and the text of the scenario gives its two coordinates in order.
\<close>

theorem parseVectorCoordinates_best_effort:
  "parseVectorCoordinates text = List.map_filter vectorTriple (splitOn CHR 0x0A text)
   \<and> (regexMatch (trim line) = None \<longrightarrow> parseLine acc line = acc)
   \<and> (regexMatch (trim line) = Some g \<and> length (splitOn CHR '','' g) \<noteq> 3 \<longrightarrow> parseLine acc line = acc)
   \<and> ((\<forall>l \<in> set (splitOn CHR 0x0A text). vectorTriple l = None) \<longrightarrow> parseVectorCoordinates text = [])
   \<and> parseVectorCoordinates [] = []
   \<and> parseVectorCoordinates
        ''<Vector (-0.4, -0.5, -0.3)>\<newline>bad line\<newline><Vector (0.2, 0.1, 0.4)>''
       = [\<lparr>coord_x = Fin (-0.4), coord_y = Fin (-0.5), coord_z = Fin (-0.3)\<rparr>,
          \<lparr>coord_x = Fin 0.2, coord_y = Fin 0.1, coord_z = Fin 0.4\<rparr>]"
proof (intro conjI impI)
  show "parseVectorCoordinates text = List.map_filter vectorTriple (splitOn CHR 0x0A text)"
    by (rule parse_map_filter)
next
  assume "regexMatch (trim line) = None"
  then have "vectorTriple line = None" by (simp add: vectorTriple_def)
  then show "parseLine acc line = acc" by (rule parseLine_skip)
next
  assume "regexMatch (trim line) = Some g \<and> length (splitOn CHR '','' g) \<noteq> 3"
  then have "vectorTriple line = None"
    by (auto simp: vectorTriple_def split: list.splits)
  then show "parseLine acc line = acc" by (rule parseLine_skip)
next
  assume "\<forall>l \<in> set (splitOn CHR 0x0A text). vectorTriple l = None"
  then have "List.map_filter vectorTriple (splitOn CHR 0x0A text) = []"
    by (induction "splitOn CHR 0x0A text") (auto simp: List.map_filter_def)
  then show "parseVectorCoordinates text = []" by (simp add: parse_map_filter)
next
  show "parseVectorCoordinates [] = []" by (simp add: parseVectorCoordinates_def)
next
  show "parseVectorCoordinates
        ''<Vector (-0.4, -0.5, -0.3)>\<newline>bad line\<newline><Vector (0.2, 0.1, 0.4)>''
       = [\<lparr>coord_x = Fin (-0.4), coord_y = Fin (-0.5), coord_z = Fin (-0.3)\<rparr>,
          \<lparr>coord_x = Fin 0.2, coord_y = Fin 0.1, coord_z = Fin 0.4\<rparr>]"
    by code_simp
qed

theorem parseVectorCoordinates_best_effort_witness:
  "regexMatch (trim ''bad line'') = None
   \<and> parseLine [\<lparr>coord_x = Fin 1, coord_y = Fin 2, coord_z = Fin 3\<rparr>] ''bad line''
       = [\<lparr>coord_x = Fin 1, coord_y = Fin 2, coord_z = Fin 3\<rparr>]
   \<and> regexMatch (trim '' <Vector (1, 2)> '') = Some ''1, 2''
   \<and> length (splitOn CHR '','' ''1, 2'') \<noteq> 3
   \<and> parseLine [] '' <Vector (1, 2)> '' = []
   \<and> list_all (\<lambda>l. vectorTriple l = None)
         (splitOn CHR 0x0A ''Vector (1, 2, 3)\<newline><Vector 1, 2, 3>'')
   \<and> parseVectorCoordinates ''Vector (1, 2, 3)\<newline><Vector 1, 2, 3>'' = []"
proof -
  have h1: "regexMatch (trim ''bad line'') = None" by code_simp
  have h2: "regexMatch (trim '' <Vector (1, 2)> '') = Some ''1, 2''
            \<and> length (splitOn CHR '','' ''1, 2'') \<noteq> 3" by code_simp
  have h3: "\<forall>l \<in> set (splitOn CHR 0x0A ''Vector (1, 2, 3)\<newline><Vector 1, 2, 3>''). vectorTriple l = None"
    by code_simp
  from h1 h2 h3
    parseVectorCoordinates_best_effort
      [of "''Vector (1, 2, 3)\<newline><Vector 1, 2, 3>''" "''bad line''"
          "[\<lparr>coord_x = Fin 1, coord_y = Fin 2, coord_z = Fin 3\<rparr>]" "''1, 2''"]
    parseVectorCoordinates_best_effort [of "[]" "'' <Vector (1, 2)> ''" "[]" "''1, 2''"]
  show ?thesis unfolding list_all_iff by blast
qed

section \<open>What the parser lets through\<close>


lemma dot_not_digit: "\<not> isDigit CHR ''.''"
  by (simp add: isDigit_def)
















section \<open>Rows, numbers and prices on the two paths\<close>

lemma mod10_real:
  assumes "0 \<le> n"
  shows "real_of_int n - 10 * real_of_int (jsTrunc (real_of_int n / 10)) = real_of_int (n mod 10)"
proof -
  have "0 \<le> real_of_int n / 10" using assms by simp
  then have "jsTrunc (real_of_int n / 10) = \<lfloor>real_of_int n / 10\<rfloor>"
    by (simp add: jsTrunc_def)
  also have "\<dots> = n div 10"
    using floor_divide_of_int_eq [of n 10, where ?'a = real] by simp
  finally have t: "jsTrunc (real_of_int n / 10) = n div 10" .
  have "n = 10 * (n div 10) + n mod 10" by simp
  then have "real_of_int n = 10 * real_of_int (n div 10) + real_of_int (n mod 10)"
    by (metis of_int_add of_int_mult of_int_numeral)
  with t show ?thesis by simp
qed

lemma floor_abs10_nonneg: "0 \<le> \<lfloor>\<bar>a::real\<bar> * 10\<rfloor>"
  by simp

lemma generate_row_formula:
  "jsAdd (jsMod (Math_floor (jsMul (Math_abs (Fin a)) (Fin 10))) (Fin 10)) (Fin 1)
     = Fin (of_int (\<lfloor>\<bar>a\<bar> * 10\<rfloor> mod 10 + 1))"
  using mod10_real [OF floor_abs10_nonneg [of a]] by simp

lemma below_ten:
  assumes "\<bar>a::real\<bar> < 1"
  shows "\<lfloor>\<bar>a\<bar> * 10\<rfloor> mod 10 = \<lfloor>\<bar>a\<bar> * 10\<rfloor>"
proof -
  have "\<bar>a\<bar> * 10 < 10" using assms by simp
  then have "\<lfloor>\<bar>a\<bar> * 10\<rfloor> < 10" by (simp add: floor_less_iff)
  moreover have "0 \<le> \<lfloor>\<bar>a\<bar> * 10\<rfloor>" by simp
  ultimately show ?thesis by simp
qed

lemma enhance_row_formula:
  "jsAdd (Math_floor (jsMul (Math_abs (Fin a)) (Fin 10))) (Fin 1) = Fin (of_int (\<lfloor>\<bar>a\<bar> * 10\<rfloor> + 1))"
  by simp

text \<open>
  Claim C6, as amended. On the enhancement path of the file load (\<open>enhanceSeats\<close>) the row of
  a seat with finite coordinates is \<open>floor(|y| * 10) + 1\<close> and its number is
  \<open>floor(|x| * 10) + 1\<close>. On the bulk import path (\<open>generateSeatsFromCoordinates\<close>) both are
  taken modulo ten first: the row is \<open>floor(|y| * 10) mod 10 + 1\<close> and the number is
  \<open>floor(|x| * 10) mod 10 + 1\<close>; the two paths agree on coordinates of magnitude below 1.
\<close>

theorem row_and_number_per_path:
  "seat_row (enhanceSeat (s\<lparr>seat_coordinates := \<lparr>coord_x = Fin a, coord_y = Fin b, coord_z = c\<rparr>\<rparr>) i)
     = Fin (of_int (\<lfloor>\<bar>b\<bar> * 10\<rfloor> + 1))
   \<and> seat_number (enhanceSeat (s\<lparr>seat_coordinates := \<lparr>coord_x = Fin a, coord_y = Fin b, coord_z = c\<rparr>\<rparr>) i)
     = Fin (of_int (\<lfloor>\<bar>a\<bar> * 10\<rfloor> + 1))
   \<and> seat_row (generateSeat \<lparr>coord_x = Fin a, coord_y = Fin b, coord_z = c\<rparr>)
     = Fin (of_int (\<lfloor>\<bar>b\<bar> * 10\<rfloor> mod 10 + 1))
   \<and> seat_number (generateSeat \<lparr>coord_x = Fin a, coord_y = Fin b, coord_z = c\<rparr>)
     = Fin (of_int (\<lfloor>\<bar>a\<bar> * 10\<rfloor> mod 10 + 1))
   \<and> (\<bar>a\<bar> < 1 \<and> \<bar>b\<bar> < 1 \<longrightarrow>
        seat_row (generateSeat \<lparr>coord_x = Fin a, coord_y = Fin b, coord_z = c\<rparr>)
          = Fin (of_int (\<lfloor>\<bar>b\<bar> * 10\<rfloor> + 1))
        \<and> seat_number (generateSeat \<lparr>coord_x = Fin a, coord_y = Fin b, coord_z = c\<rparr>)
          = Fin (of_int (\<lfloor>\<bar>a\<bar> * 10\<rfloor> + 1)))"
proof (intro conjI impI)
  show "seat_row (enhanceSeat (s\<lparr>seat_coordinates := \<lparr>coord_x = Fin a, coord_y = Fin b, coord_z = c\<rparr>\<rparr>) i)
     = Fin (of_int (\<lfloor>\<bar>b\<bar> * 10\<rfloor> + 1))"
    by (simp add: enhanceSeat_def Let_def)
  show "seat_number (enhanceSeat (s\<lparr>seat_coordinates := \<lparr>coord_x = Fin a, coord_y = Fin b, coord_z = c\<rparr>\<rparr>) i)
     = Fin (of_int (\<lfloor>\<bar>a\<bar> * 10\<rfloor> + 1))"
    by (simp add: enhanceSeat_def Let_def)
  show "seat_row (generateSeat \<lparr>coord_x = Fin a, coord_y = Fin b, coord_z = c\<rparr>)
     = Fin (of_int (\<lfloor>\<bar>b\<bar> * 10\<rfloor> mod 10 + 1))"
    using generate_row_formula [of b] by (simp add: generateSeat_def Let_def)
  show "seat_number (generateSeat \<lparr>coord_x = Fin a, coord_y = Fin b, coord_z = c\<rparr>)
     = Fin (of_int (\<lfloor>\<bar>a\<bar> * 10\<rfloor> mod 10 + 1))"
    using generate_row_formula [of a] by (simp add: generateSeat_def Let_def)
next
  assume small: "\<bar>a\<bar> < 1 \<and> \<bar>b\<bar> < 1"
  then show "seat_row (generateSeat \<lparr>coord_x = Fin a, coord_y = Fin b, coord_z = c\<rparr>)
          = Fin (of_int (\<lfloor>\<bar>b\<bar> * 10\<rfloor> + 1))"
    using generate_row_formula [of b] below_ten [of b]
    by (simp add: generateSeat_def Let_def)
  from small show "seat_number (generateSeat \<lparr>coord_x = Fin a, coord_y = Fin b, coord_z = c\<rparr>)
          = Fin (of_int (\<lfloor>\<bar>a\<bar> * 10\<rfloor> + 1))"
    using generate_row_formula [of a] below_ten [of a]
    by (simp add: generateSeat_def Let_def)
qed


text \<open>
  Claim C6 as stated fails on the bulk import path: the record \<open>(1.5, 0, 2.5)\<close> becomes
  the coordinate \<open>x = 1.5\<close>, \<open>y = 2.5\<close>, whose row and number are both 6, where the
  formula of the claim gives 26 and 16.
\<close>

theorem bulk_import_row_wraps:
  "map seat_row (parseAndGenerateSeats ''<Vector (1.5, 0, 2.5)>'') = [Fin 6]
   \<and> map seat_number (parseAndGenerateSeats ''<Vector (1.5, 0, 2.5)>'') = [Fin 6]
   \<and> map seat_coordinates (parseAndGenerateSeats ''<Vector (1.5, 0, 2.5)>'')
       = [\<lparr>coord_x = Fin 1.5, coord_y = Fin 2.5, coord_z = Fin 0\<rparr>]
   \<and> Fin (of_int (\<lfloor>\<bar>2.5::real\<bar> * 10\<rfloor> + 1)) = Fin 26
   \<and> Fin (of_int (\<lfloor>\<bar>1.5::real\<bar> * 10\<rfloor> + 1)) = Fin 16"
  by code_simp

theorem row_and_number_per_path_witness:
  "seat_row (enhanceSeat ((generateSeat \<lparr>coord_x = Fin 0, coord_y = Fin 0, coord_z = Fin 0\<rparr>)
       \<lparr>seat_coordinates := \<lparr>coord_x = Fin 1.5, coord_y = Fin 2.5, coord_z = Fin 0\<rparr>\<rparr>) 0) = Fin 26
   \<and> seat_number (enhanceSeat ((generateSeat \<lparr>coord_x = Fin 0, coord_y = Fin 0, coord_z = Fin 0\<rparr>)
       \<lparr>seat_coordinates := \<lparr>coord_x = Fin 1.5, coord_y = Fin 2.5, coord_z = Fin 0\<rparr>\<rparr>) 0) = Fin 16
   \<and> seat_row (generateSeat \<lparr>coord_x = Fin 1.5, coord_y = Fin 2.5, coord_z = Fin 0\<rparr>) = Fin 6
   \<and> seat_number (generateSeat \<lparr>coord_x = Fin 1.5, coord_y = Fin 2.5, coord_z = Fin 0\<rparr>) = Fin 6
   \<and> \<bar>-0.25 :: real\<bar> < 1 \<and> \<bar>0.5 :: real\<bar> < 1
   \<and> seat_row (generateSeat \<lparr>coord_x = Fin (-0.25), coord_y = Fin 0.5, coord_z = Fin 0\<rparr>) = Fin 6
   \<and> seat_number (generateSeat \<lparr>coord_x = Fin (-0.25), coord_y = Fin 0.5, coord_z = Fin 0\<rparr>) = Fin 3"
proof -
  have small: "\<bar>-0.25 :: real\<bar> < 1 \<and> \<bar>0.5 :: real\<bar> < 1" by simp
  have fl: "\<lfloor>\<bar>0.5 :: real\<bar> * 10\<rfloor> = 5" "\<lfloor>\<bar>-0.25 :: real\<bar> * 10\<rfloor> = 2" by simp_all
  from row_and_number_per_path
    [where a = "-0.25" and b = "0.5" and c = "Fin 0"] small fl
  have "seat_row (generateSeat \<lparr>coord_x = Fin (-0.25), coord_y = Fin 0.5, coord_z = Fin 0\<rparr>) = Fin 6
        \<and> seat_number (generateSeat \<lparr>coord_x = Fin (-0.25), coord_y = Fin 0.5, coord_z = Fin 0\<rparr>) = Fin 3"
    by simp
  with small row_and_number_per_path
    [where s = "generateSeat \<lparr>coord_x = Fin 0, coord_y = Fin 0, coord_z = Fin 0\<rparr>"
       and a = "1.5" and b = "2.5" and c = "Fin 0" and i = 0]
  show ?thesis by simp
qed







section \<open>The transform of the seat map\<close>

lemma single_bounds:
  "foldl boundsStep \<lparr>minX = PInf, maxX = NInf, minZ = PInf, maxZ = NInf\<rparr> [\<lparr>c2_x = u, c2_z = w\<rparr>]
     = \<lparr>minX = u, maxX = u, minZ = w, maxZ = w\<rparr>"
  by (cases u; cases w) (simp_all add: boundsStep_def)

lemma degenerate_extent: "\<not> jsGt (jsSub u u) (Fin 0)"
  by (cases u) (simp_all add: jsGt_def jsSub_def)

lemma centre_of_one: "jsNeg (jsDiv (jsAdd u u) (Fin 2)) = jsNeg u"
  by (cases u) (simp_all add: signedInf_def)

lemma calcScalingFactors_single:
  "calcScalingFactors [\<lparr>c2_x = u, c2_z = w\<rparr>]
     = \<lparr>sf_scale = Some (Fin 0.95), sf_xScale = None, sf_zScale = None,
        sf_xOffset = jsNeg u, sf_zOffset = jsNeg w\<rparr>"
  by (simp add: calcScalingFactors_def single_bounds degenerate_extent centre_of_one Let_def
        del: foldl_Cons foldl_Nil)

text \<open>
  The early return of \<open>calcScalingFactors\<close> has no property \<^verbatim>\<open>scale\<close>, so for the empty
  seat set the effect stores \<^verbatim>\<open>undefined\<close> as the base scale.
\<close>

lemma empty_set_baseScale_undefined: "tf_baseScale (baseScalingEffect [] t) = None"
  by (simp add: baseScalingEffect_def calcScalingFactors_def)

text \<open>
  Claim C1, as amended. For a seat set of one seat the normalisation divides by nothing:
  both extents are zero (or not numbers), the guard takes 1 for each axis, and the base
  scale is \<open>min(1, 1) * 0.95 = 0.95\<close>; the base offset is the negation of the horizontal
  coordinates of the seat. For the empty seat set the base offset is \<open>{0, 0}\<close>.
\<close>

theorem base_transform_of_small_sets:
  "tf_baseScale (baseScalingEffect [s] t) = Some (Fin 0.95)
   \<and> tf_baseOffset (baseScalingEffect [s] t)
       = \<lparr>c2_x = jsNeg (coord_x (seat_coordinates s)), c2_z = jsNeg (coord_z (seat_coordinates s))\<rparr>
   \<and> tf_baseOffset (baseScalingEffect [] t) = \<lparr>c2_x = Fin 0, c2_z = Fin 0\<rparr>"
  by (simp add: baseScalingEffect_def calcScalingFactors_single Let_def)
     (simp add: calcScalingFactors_def)

text \<open>
  Claim C1 as stated fails: the base scale of a seat set of one seat is 0.95, not 1.
\<close>

theorem single_seat_baseScale:
  "tf_baseScale (baseScalingEffect [defaultSeat ''A1'' ''A'' 1 1 150 (-5) 2 10] initialTransformations)
     = Some (Fin 0.95)
   \<and> tf_baseScale (baseScalingEffect [defaultSeat ''A1'' ''A'' 1 1 150 (-5) 2 10] initialTransformations)
     \<noteq> Some (Fin 1)"
  by (simp add: baseScalingEffect_def calcScalingFactors_single Let_def defaultSeat_def)

theorem base_transform_of_small_sets_witness:
  "tf_baseScale (baseScalingEffect [defaultSeat ''A1'' ''A'' 1 1 150 (-5) 2 10] initialTransformations)
     = Some (Fin 0.95)
   \<and> tf_baseOffset (baseScalingEffect [defaultSeat ''A1'' ''A'' 1 1 150 (-5) 2 10] initialTransformations)
     = \<lparr>c2_x = Fin 5, c2_z = Fin (-10)\<rparr>
   \<and> tf_baseOffset (baseScalingEffect [] initialTransformations) = \<lparr>c2_x = Fin 0, c2_z = Fin 0\<rparr>"
  using base_transform_of_small_sets
    [where s = "defaultSeat ''A1'' ''A'' 1 1 150 (-5) 2 10" and t = initialTransformations]
  by (simp add: defaultSeat_def)

text \<open>
  Claim C7. The position the Seat component renders is the composition, in this order, of
  the normalisation \<open>(coord + baseOffset) * baseScale\<close>, the mirror of the depth axis, the
  rotation by the angle in radians, the user scale and the translation; its elevation is
  the constant 1 whatever the \<open>y\<close> of the seat; the base position is the normalisation
  alone; and \<open>handleSeatSelect\<close> derives the same position again. On finite numbers the
  composition is the closed formula of the last conjunct.
\<close>

theorem transform_composition:
  "horizontal (Seat_transformedPosition (seatPosition s) t)
     = composedPosition t (coord_x (seat_coordinates s), coord_z (seat_coordinates s))
   \<and> elevation (Seat_transformedPosition (seatPosition s) t) = Fin 1
   \<and> horizontal (Seat_basePosition (seatPosition s) t)
     = normaliseStep t (coord_x (seat_coordinates s), coord_z (seat_coordinates s))
   \<and> elevation (Seat_basePosition (seatPosition s) t) = Fin 1
   \<and> handleSeatSelect_transformedPosition s t = Seat_transformedPosition (seatPosition s) t
   \<and> Seat_transformedPosition (Fin px, py, Fin pz)
        \<lparr>tf_scale = Fin k, tf_rotation = Fin deg, tf_translateX = Fin tx, tf_translateY = Fin ty,
         tf_baseScale = Some (Fin bs), tf_baseOffset = \<lparr>c2_x = Fin ox, c2_z = Fin oz\<rparr>\<rparr>
     = (Fin ((((px + ox) * bs) * cos (deg * (pi / 180)) - (- ((pz + oz) * bs)) * sin (deg * (pi / 180))) * k + tx),
        Fin 1,
        Fin ((((px + ox) * bs) * sin (deg * (pi / 180)) + (- ((pz + oz) * bs)) * cos (deg * (pi / 180))) * k + ty))"
  by (simp add: Seat_transformedPosition_def Seat_basePosition_def
        handleSeatSelect_transformedPosition_def seatPosition_def composedPosition_def
        translateStep_def scaleStep_def rotateStep_def mirrorStep_def normaliseStep_def
        toRadians_def horizontal_def elevation_def jsSub_def Let_def)

theorem transform_composition_witness:
  "Seat_transformedPosition (Fin 3, Fin 2, Fin 4)
        \<lparr>tf_scale = Fin 2, tf_rotation = Fin 90, tf_translateX = Fin 1, tf_translateY = Fin 1,
         tf_baseScale = Some (Fin 0.5), tf_baseOffset = \<lparr>c2_x = Fin (-1), c2_z = Fin (-1)\<rparr>\<rparr>
     = (Fin 4, Fin 1, Fin 3)"
  using transform_composition
    [where px = 3 and py = "Fin 2" and pz = 4 and k = 2 and deg = 90 and tx = 1 and ty = 1
       and bs = "0.5" and ox = "-1" and oz = "-1"]
  by simp

section \<open>Validation of an uploaded binary model\<close>

lemma glb_isSupported: "list_ex (\<lambda>ext. str_includes ext ''glb'') SUPPORTED_FORMATS"
  by (simp add: SUPPORTED_FORMATS_def)

lemma byte_bound: "unat (b :: byte) < 256"
  using unsigned_less [of b, where ?'a = nat] by simp

lemma base256_unique:
  fixes a0 a1 a2 a3 b0 b1 b2 b3 :: nat
  assumes "a0 < 256" "a1 < 256" "a2 < 256" "a3 < 256" "b0 < 256" "b1 < 256" "b2 < 256" "b3 < 256"
    and eq: "a3 + a2 * 256 + a1 * 65536 + a0 * 16777216 = b3 + b2 * 256 + b1 * 65536 + b0 * 16777216"
  shows "a0 = b0 \<and> a1 = b1 \<and> a2 = b2 \<and> a3 = b3"
proof -
  have e0: "a0 = b0" using assms by linarith
  have e1: "a1 = b1" using assms e0 by linarith
  have e2: "a2 = b2" using assms e0 e1 by linarith
  have e3: "a3 = b3" using assms e0 e1 e2 by linarith
  from e0 e1 e2 e3 show ?thesis by simp
qed

lemma be32_magic:
  fixes b0 b1 b2 b3 :: byte
  shows "(unat b3 + unat b2 * 256 + unat b1 * 65536 + unat b0 * 16777216 = 0x676C5446)
         = (b0 = 0x67 \<and> b1 = 0x6C \<and> b2 = 0x54 \<and> b3 = 0x46)"
proof
  assume "unat b3 + unat b2 * 256 + unat b1 * 65536 + unat b0 * 16777216 = 0x676C5446"
  then have "unat b3 + unat b2 * 256 + unat b1 * 65536 + unat b0 * 16777216
             = 70 + 84 * 256 + 108 * 65536 + 103 * 16777216" by simp
  then have "unat b0 = 103 \<and> unat b1 = 108 \<and> unat b2 = 84 \<and> unat b3 = 70"
    by (intro base256_unique) (simp_all add: byte_bound)
  then have "unat b0 = unat (0x67 :: byte) \<and> unat b1 = unat (0x6C :: byte)
             \<and> unat b2 = unat (0x54 :: byte) \<and> unat b3 = unat (0x46 :: byte)" by simp
  then show "b0 = 0x67 \<and> b1 = 0x6C \<and> b2 = 0x54 \<and> b3 = 0x46"
    by (simp only: word_unat_eq_iff)
next
  assume "b0 = 0x67 \<and> b1 = 0x6C \<and> b2 = 0x54 \<and> b3 = 0x46"
  then show "unat b3 + unat b2 * 256 + unat b1 * 65536 + unat b0 * 16777216 = 0x676C5446"
    by simp
qed

lemma magic_bytes:
  "(getUint32 buf 0 False = Some 0x676C5446) = (take 4 buf = [0x67, 0x6C, 0x54, 0x46])"
proof (cases "\<exists>b0 b1 b2 b3. take 4 buf = [b0, b1, b2, b3]")
  case True
  then obtain b0 b1 b2 b3 where t: "take 4 buf = [b0, b1, b2, b3]" by blast
  then show ?thesis using be32_magic [of b3 b2 b1 b0] by (simp add: getUint32_def)
next
  case False
  then have "getUint32 buf 0 False = None"
    by (auto simp: getUint32_def split: list.splits)
  with False show ?thesis by auto
qed

lemma bytes_magic_checked:
  "getUint32 buf 0 False \<noteq> Some 0x676C5446
   \<Longrightarrow> (case validateGlb_bytes buf of Inl e \<Rightarrow> False | Inr v \<Rightarrow> valid v) = False"
  by (cases "getUint32 buf 0 False") (simp_all add: validateGlb_bytes_def)

lemma bytes_version_checked:
  "getUint32 buf 0 False = Some 0x676C5446 \<Longrightarrow> getUint32 buf 4 True \<noteq> Some 2
   \<Longrightarrow> (case validateGlb_bytes buf of Inl e \<Rightarrow> False | Inr v \<Rightarrow> valid v) = False"
  by (cases "getUint32 buf 4 True") (simp_all add: validateGlb_bytes_def)

lemma bytes_length_checked:
  "getUint32 buf 0 False = Some 0x676C5446 \<Longrightarrow> getUint32 buf 4 True = Some 2
   \<Longrightarrow> \<not> (\<exists>n. getUint32 buf 8 True = Some n \<and> n \<le> length buf)
   \<Longrightarrow> (case validateGlb_bytes buf of Inl e \<Rightarrow> False | Inr v \<Rightarrow> valid v) = False"
  by (cases "getUint32 buf 8 True") (simp_all add: validateGlb_bytes_def not_le)

lemma bytes_chunk_checked:
  "getUint32 buf 0 False = Some 0x676C5446 \<Longrightarrow> getUint32 buf 4 True = Some 2
   \<Longrightarrow> getUint32 buf 8 True = Some n \<Longrightarrow> n \<le> length buf
   \<Longrightarrow> (case validateGlb_bytes buf of Inl e \<Rightarrow> False | Inr v \<Rightarrow> valid v)
       = (getUint32 buf 16 True = Some 0x4E4F534A)"
  by (cases "getUint32 buf 16 True") (simp_all add: validateGlb_bytes_def not_less)

lemma validateGlb_bytes_valid:
  "(case validateGlb_bytes buf of Inl e \<Rightarrow> False | Inr v \<Rightarrow> valid v)
     = (getUint32 buf 0 False = Some 0x676C5446 \<and> getUint32 buf 4 True = Some 2
        \<and> (\<exists>n. getUint32 buf 8 True = Some n \<and> n \<le> length buf)
        \<and> getUint32 buf 16 True = Some 0x4E4F534A)"
  using bytes_magic_checked [of buf] bytes_version_checked [of buf] bytes_length_checked [of buf]
    bytes_chunk_checked [of buf]
  by blast

lemma validateGlbFile_glb:
  assumes "fileExtensionOf (file_name f) = ''glb''" and "file_arrayBuffer f = Resolved buf"
  shows "valid (validateGlbFile f)
     = (getUint32 buf 0 False = Some 0x676C5446 \<and> getUint32 buf 4 True = Some 2
        \<and> (\<exists>n. getUint32 buf 8 True = Some n \<and> n \<le> length buf)
        \<and> getUint32 buf 16 True = Some 0x4E4F534A)"
proof -
  have "validateGlbFile_try f = validateGlb_bytes buf"
    using assms glb_isSupported by (simp add: validateGlbFile_try_def Let_def)
  then have "valid (validateGlbFile f) = (case validateGlb_bytes buf of Inl e \<Rightarrow> False | Inr v \<Rightarrow> valid v)"
    by (simp add: validateGlbFile_def split: sum.splits)
  then show ?thesis by (simp only: validateGlb_bytes_valid)
qed

lemma invalid_not_uploaded:
  "\<not> valid (validateGlbFile f) \<Longrightarrow> onModelUploaded (saveModelFile f blobUrl) = None"
  by (simp add: saveModelFile_def Let_def)

text \<open>
  Claim C3, as amended. For a file with the extension \<open>glb\<close>, the validation passes exactly
  when the first four bytes are 67 6C 54 46, the little-endian integer at offset 4 is 2, the
  little-endian length at offset 8 does not exceed the length of the buffer, and the
  little-endian chunk type at offset 16 is \<open>0x4E4F534A\<close>, every one of these reads lying
  inside the buffer. A wrong signature, a wrong version or a length beyond the buffer gives
  \<open>valid = False\<close>, and the uploader then makes no call of \<open>onModelUploaded\<close>: the file never
  reaches the loader.
\<close>

theorem glb_validation:
  assumes "fileExtensionOf (file_name f) = ''glb''" and "file_arrayBuffer f = Resolved buf"
  shows "valid (validateGlbFile f)
           = (take 4 buf = [0x67, 0x6C, 0x54, 0x46] \<and> getUint32 buf 4 True = Some 2
              \<and> (\<exists>n. getUint32 buf 8 True = Some n \<and> n \<le> length buf)
              \<and> getUint32 buf 16 True = Some 0x4E4F534A)
         \<and> (take 4 buf \<noteq> [0x67, 0x6C, 0x54, 0x46] \<longrightarrow> \<not> valid (validateGlbFile f))
         \<and> (getUint32 buf 4 True \<noteq> Some 2 \<longrightarrow> \<not> valid (validateGlbFile f))
         \<and> (getUint32 buf 8 True = Some n \<and> length buf < n \<longrightarrow> \<not> valid (validateGlbFile f))
         \<and> (\<not> valid (validateGlbFile f) \<longrightarrow> onModelUploaded (saveModelFile f blobUrl) = None)"
proof -
  have v: "valid (validateGlbFile f)
           = (take 4 buf = [0x67, 0x6C, 0x54, 0x46] \<and> getUint32 buf 4 True = Some 2
              \<and> (\<exists>n. getUint32 buf 8 True = Some n \<and> n \<le> length buf)
              \<and> getUint32 buf 16 True = Some 0x4E4F534A)"
    using validateGlbFile_glb [OF assms] by (simp only: magic_bytes)
  have "getUint32 buf 8 True = Some n \<and> length buf < n \<longrightarrow> \<not> valid (validateGlbFile f)"
    using v by auto
  with v invalid_not_uploaded [of f blobUrl] show ?thesis by blast
qed

lemma ext_glb: "fileExtensionOf ''model.glb'' = ''glb''"
  by code_simp

text \<open>
  Claim C3 as stated fails: a buffer with the right signature, version 2 and a length field
  equal to its length is rejected when its first chunk is not the JSON chunk.
\<close>

theorem glb_header_alone_is_not_enough:
  "take 4 (sampleGlb[16 := 0]) = [0x67, 0x6C, 0x54, 0x46]
   \<and> getUint32 (sampleGlb[16 := 0]) 4 True = Some 2
   \<and> getUint32 (sampleGlb[16 := 0]) 8 True = Some 20
   \<and> length (sampleGlb[16 := 0]) = 20
   \<and> validateGlbFile \<lparr>file_name = ''model.glb'', file_arrayBuffer = Resolved (sampleGlb[16 := 0])\<rparr>
       = \<lparr>valid = False, message = ''Invalid GLB file: Missing JSON chunk''\<rparr>"
  by (simp add: sampleGlb_def getUint32_def validateGlbFile_def validateGlbFile_try_def
        validateGlb_bytes_def ext_glb glb_isSupported Let_def)

theorem glb_validation_witness:
  "valid (validateGlbFile \<lparr>file_name = ''model.glb'', file_arrayBuffer = Resolved sampleGlb\<rparr>)
   \<and> \<not> valid (validateGlbFile \<lparr>file_name = ''model.glb'', file_arrayBuffer = Resolved (sampleGlb[0 := 0x66])\<rparr>)
   \<and> \<not> valid (validateGlbFile \<lparr>file_name = ''model.glb'', file_arrayBuffer = Resolved (sampleGlb[4 := 1])\<rparr>)
   \<and> \<not> valid (validateGlbFile \<lparr>file_name = ''model.glb'', file_arrayBuffer = Resolved (sampleGlb[8 := 21])\<rparr>)
   \<and> onModelUploaded (saveModelFile \<lparr>file_name = ''model.glb'', file_arrayBuffer = Resolved (sampleGlb[8 := 21])\<rparr>
         ''blob:1'') = None"
proof -
  let ?f = "\<lambda>buf. \<lparr>file_name = ''model.glb'', file_arrayBuffer = Resolved buf\<rparr>"
  have ext: "\<And>buf. fileExtensionOf (file_name (?f buf)) = ''glb''" by (simp add: ext_glb)
  have buf: "\<And>buf. file_arrayBuffer (?f buf) = Resolved buf" by simp
  have ok: "take 4 sampleGlb = [0x67, 0x6C, 0x54, 0x46] \<and> getUint32 sampleGlb 4 True = Some 2
            \<and> getUint32 sampleGlb 8 True = Some 20 \<and> 20 \<le> length sampleGlb
            \<and> getUint32 sampleGlb 16 True = Some 0x4E4F534A"
    by (simp add: sampleGlb_def getUint32_def)
  have bad_magic: "take 4 (sampleGlb[0 := 0x66]) \<noteq> [0x67, 0x6C, 0x54, 0x46]"
    by (simp add: sampleGlb_def)
  have bad_version: "getUint32 (sampleGlb[4 := 1]) 4 True \<noteq> Some 2"
    by (simp add: sampleGlb_def getUint32_def)
  have bad_length: "getUint32 (sampleGlb[8 := 21]) 8 True = Some 21 \<and> length (sampleGlb[8 := 21]) < 21"
    by (simp add: sampleGlb_def getUint32_def)
  from ok have "valid (validateGlbFile (?f sampleGlb))"
    using glb_validation [OF ext buf, of sampleGlb] by blast
  moreover from bad_magic have "\<not> valid (validateGlbFile (?f (sampleGlb[0 := 0x66])))"
    using glb_validation [OF ext buf, of "sampleGlb[0 := 0x66]"] by blast
  moreover from bad_version have "\<not> valid (validateGlbFile (?f (sampleGlb[4 := 1])))"
    using glb_validation [OF ext buf, of "sampleGlb[4 := 1]"] by blast
  moreover from bad_length have nv: "\<not> valid (validateGlbFile (?f (sampleGlb[8 := 21])))"
    using glb_validation [OF ext buf, of "sampleGlb[8 := 21]" 21] by blast
  moreover from nv have "onModelUploaded (saveModelFile (?f (sampleGlb[8 := 21])) ''blob:1'') = None"
    using glb_validation [OF ext buf, of "sampleGlb[8 := 21]" 21 "''blob:1''"] by blast
  ultimately show ?thesis by blast
qed

section \<open>The model provider: stale loads and reported errors\<close>

lemma applyResult_unmounted: "applyResult False result st = st"
  by (simp add: applyResult_def split: sum.splits option.splits)

lemma runs_complete: "runs (complete n env p) = runs p"
  by (simp add: complete_def)

lemma length_runs_cleanup: "length (runs (cleanup p)) = length (runs p)"
  by (simp add: cleanup_def)

lemma visible_cleanup: "visible (cleanup p) = visible p"
  by (simp add: cleanup_def)

lemma length_runs_load: "length (runs (load url p)) = Suc (length (runs p))"
  by (simp add: load_def Let_def length_runs_cleanup)

lemma latestRun_load: "latestRun (load url p) = length (runs p)"
  by (simp add: latestRun_def length_runs_load)

lemma cleanup_after_load:
  "runs (cleanup (load url p)) ! length (runs p)
     = (last (runs (load url p)))\<lparr>run_isMounted := False\<rparr>"
  by (simp add: cleanup_def load_def Let_def length_runs_cleanup nth_append)

lemma superseded_flag:
  "\<not> run_isMounted (runs (load url2 (load url1 p)) ! length (runs p))"
proof -
  have "runs (load url2 (load url1 p)) ! length (runs p)
          = runs (cleanup (load url1 p)) ! length (runs p)"
    by (simp add: load_def [of url2] Let_def nth_append length_runs_cleanup length_runs_load)
  then show ?thesis by (simp add: cleanup_after_load)
qed

lemma latest_flag:
  "runs (load url p) ! length (runs p)
     = \<lparr>run_modelPath = (case url of None \<Rightarrow> getStadiumModelPath
                          | Some u \<Rightarrow> if u = [] then getStadiumModelPath else u),
        run_isMounted = True\<rparr>"
  by (simp add: load_def Let_def nth_append length_runs_cleanup)

lemma stale_discarded:
  "complete (length (runs p)) env (load url2 (load url1 p)) = load url2 (load url1 p)"
  using superseded_flag [of url2 url1 p]
  by (simp add: complete_def applyResult_unmounted length_runs_load)

lemma cleanup_flags:
  assumes "i < length (runs p)"
  shows "run_isMounted (runs (cleanup p) ! i)
           = (run_isMounted (runs p ! i) \<and> Suc i \<noteq> length (runs p))"
proof (cases "Suc i = length (runs p)")
  case True
  then have "runs p \<noteq> []" and "length (runs p) - 1 = i" by auto
  then show ?thesis using assms True by (simp add: cleanup_def)
next
  case False
  then have "length (runs p) - 1 \<noteq> i" using assms by auto
  then show ?thesis using assms False by (auto simp: cleanup_def)
qed

lemma load_flags:
  assumes "i < length (runs p)"
  shows "\<not> run_isMounted (runs (load url p) ! i) \<or> (run_isMounted (runs p ! i) \<and> Suc i < length (runs p))"
proof -
  have "runs (load url p) ! i = runs (cleanup p) ! i"
    using assms by (simp add: load_def Let_def nth_append length_runs_cleanup)
  then show ?thesis using cleanup_flags [OF assms] assms by auto
qed

lemma reachable_stale:
  "reachable p \<Longrightarrow> Suc i < length (runs p) \<Longrightarrow> \<not> run_isMounted (runs p ! i)"
proof (induction arbitrary: i rule: reachable.induct)
  case (reach_mount url)
  then show ?case by (simp add: length_runs_load initialProvider_def)
next
  case (reach_load p url)
  from reach_load.prems have i: "i < length (runs p)" by (simp add: length_runs_load)
  show ?case
  proof
    assume "run_isMounted (runs (load url p) ! i)"
    with load_flags [OF i, of url] have "run_isMounted (runs p ! i)" "Suc i < length (runs p)"
      by auto
    with reach_load.IH show False by blast
  qed
next
  case (reach_complete p n env)
  then show ?case by (simp add: runs_complete)
next
  case (reach_unmount p)
  then have "Suc i < length (runs p)" by (simp add: unmount_def length_runs_cleanup)
  with reach_unmount.IH have "\<not> run_isMounted (runs p ! i)" by blast
  then show ?case using cleanup_flags [of i p] \<open>Suc i < length (runs p)\<close>
    by (simp add: unmount_def)
qed

text \<open>
  Claim C2. After two load requests in a row, the settlement of the first load changes
  nothing of the visible state (model, isLoading, error), whatever the environment
  answered; whether it settles before or after the second load does, the visible state is
  the one the second load alone gives, which is the result of the second request applied to
  the state the two requests left. In every state the provider can reach, the settlement of
  a run that is not the latest leaves the visible state as it is.
\<close>

theorem stale_completion_discarded:
  "visible (complete (latestRun (load url1 p)) env1 (load url2 (load url1 p)))
     = visible (load url2 (load url1 p))
   \<and> visible (complete (latestRun (load url2 (load url1 p))) env2
                (complete (latestRun (load url1 p)) env1 (load url2 (load url1 p))))
     = visible (complete (latestRun (load url2 (load url1 p))) env2 (load url2 (load url1 p)))
   \<and> visible (complete (latestRun (load url1 p)) env1
                (complete (latestRun (load url2 (load url1 p))) env2 (load url2 (load url1 p))))
     = visible (complete (latestRun (load url2 (load url1 p))) env2 (load url2 (load url1 p)))
   \<and> visible (complete (latestRun (load url2 (load url1 p))) env2 (load url2 (load url1 p)))
     = applyResult True
         (loadModel_try (case url2 of None \<Rightarrow> getStadiumModelPath
                                    | Some u \<Rightarrow> if u = [] then getStadiumModelPath else u) env2)
         ((visible p)\<lparr>isLoading := True, error := None\<rparr>)
   \<and> (reachable q \<and> n < latestRun q \<longrightarrow> visible (complete n env q) = visible q)"
proof (intro conjI impI)
  let ?p2 = "load url2 (load url1 p)"
  have r1: "latestRun (load url1 p) = length (runs p)" by (rule latestRun_load)
  have r2: "latestRun ?p2 = Suc (length (runs p))" by (simp add: latestRun_load length_runs_load)
  show "visible (complete (latestRun (load url1 p)) env1 ?p2) = visible ?p2"
    by (simp add: r1 stale_discarded)
  show "visible (complete (latestRun ?p2) env2 (complete (latestRun (load url1 p)) env1 ?p2))
          = visible (complete (latestRun ?p2) env2 ?p2)"
    by (simp add: r1 stale_discarded)
  have flag1: "\<not> run_isMounted (runs ?p2 ! length (runs p))" by (rule superseded_flag)
  show "visible (complete (latestRun (load url1 p)) env1 (complete (latestRun ?p2) env2 ?p2))
          = visible (complete (latestRun ?p2) env2 ?p2)"
    using flag1
    by (simp add: r1 complete_def [of "length (runs p)"] runs_complete applyResult_unmounted)
  have vis: "visible ?p2 = (visible p)\<lparr>isLoading := True, error := None\<rparr>"
    by (simp add: load_def Let_def visible_cleanup)
  have "runs ?p2 ! Suc (length (runs p))
          = \<lparr>run_modelPath = (case url2 of None \<Rightarrow> getStadiumModelPath
                               | Some u \<Rightarrow> if u = [] then getStadiumModelPath else u),
             run_isMounted = True\<rparr>"
    using latest_flag [of url2 "load url1 p"] by (simp add: length_runs_load)
  then show "visible (complete (latestRun ?p2) env2 ?p2)
     = applyResult True
         (loadModel_try (case url2 of None \<Rightarrow> getStadiumModelPath
                                    | Some u \<Rightarrow> if u = [] then getStadiumModelPath else u) env2)
         ((visible p)\<lparr>isLoading := True, error := None\<rparr>)"
    by (simp add: r2 complete_def length_runs_load vis)
next
  assume a: "reachable q \<and> n < latestRun q"
  then have "Suc n < length (runs q)" by (auto simp: latestRun_def)
  with a have "\<not> run_isMounted (runs q ! n)" using reachable_stale by blast
  then show "visible (complete n env q) = visible q"
    by (simp add: complete_def applyResult_unmounted)
qed

theorem stale_completion_discarded_witness:
  "reachable (load (Some ''blob:model'') (load None initialProvider))
   \<and> 0 < latestRun (load (Some ''blob:model'') (load None initialProvider))
   \<and> visible (complete 0 emptySceneEnv (load (Some ''blob:model'') (load None initialProvider)))
       = visible (load (Some ''blob:model'') (load None initialProvider))"
proof -
  let ?q = "load (Some ''blob:model'') (load None initialProvider)"
  have r: "reachable ?q" by (intro reach_load reach_mount)
  have l: "0 < latestRun ?q" by (simp add: latestRun_def length_runs_load)
  from r l stale_completion_discarded [where q = ?q and n = 0 and env = emptySceneEnv]
  show ?thesis by blast
qed

lemma validation_message_differs:
  "''Model validation failed - invalid structure'' \<noteq> ''Failed to fetch model: '' @ rest"
  "''Model validation failed - invalid structure'' \<noteq> ''Failed to fetch DAE model: '' @ rest"
  "''Model validation failed - invalid structure'' \<noteq> ''No model was loaded''"
  by simp_all

lemma http_failure_thrown:
  assumes "env_fetch env = Resolved r" and "\<not> http_ok r"
  shows "loadModel_try modelPath env
           = Inl (newError ((if endsWith (toLowerCase modelPath) ''.dae''
                             then ''Failed to fetch DAE model: '' else ''Failed to fetch model: '')
                            @ showNat (http_status r) @ '' '' @ http_statusText r))"
  using assms by (simp add: loadModel_try_def)

text \<open>
  Claim C4, as amended. A model that decodes but fails the geometry check of the provider
  is reported like every other failure of a load: \<open>error\<close> holds a plain \<open>Error\<close> object and
  \<open>isLoading\<close> becomes false. There is no kind or reason tag. The error has the fixed
  message \<open>Model validation failed - invalid structure\<close>; the errors the provider builds
  itself for an HTTP failure are of the same kind \<open>Error\<close> and differ from it in the message
  only, as does the error for a decoder that hands over nothing; an error thrown by
  \<open>fetch\<close> or by a decoder is stored as it is.
\<close>

theorem empty_geometry_report:
  assumes "loadModel_try modelPath env = Inr (Some m)" and "\<not> isValidModel (Some m)"
  shows "applyResult True (loadModel_try modelPath env) st
           = st\<lparr>error := Some (newError ''Model validation failed - invalid structure''),
                isLoading := False\<rparr>
         \<and> (env_fetch env' = Resolved r \<and> \<not> http_ok r \<longrightarrow>
              (\<exists>msg. applyResult True (loadModel_try modelPath' env') st'
                       = st'\<lparr>error := Some (newError msg), isLoading := False\<rparr>
                     \<and> msg \<noteq> ''Model validation failed - invalid structure''
                     \<and> error_name (newError msg)
                         = error_name (newError ''Model validation failed - invalid structure'')))
         \<and> (loadModel_try modelPath' env' = Inr None \<longrightarrow>
              applyResult True (loadModel_try modelPath' env') st'
                = st'\<lparr>error := Some (newError ''No model was loaded''), isLoading := False\<rparr>)
         \<and> (loadModel_try modelPath' env' = Inl e \<longrightarrow>
              applyResult True (loadModel_try modelPath' env') st'
                = st'\<lparr>error := Some e, isLoading := False\<rparr>)"
proof (intro conjI impI)
  show "applyResult True (loadModel_try modelPath env) st
           = st\<lparr>error := Some (newError ''Model validation failed - invalid structure''),
                isLoading := False\<rparr>"
    using assms by (simp add: applyResult_def)
next
  assume a: "env_fetch env' = Resolved r \<and> \<not> http_ok r"
  let ?msg = "(if endsWith (toLowerCase modelPath') ''.dae''
               then ''Failed to fetch DAE model: '' else ''Failed to fetch model: '')
              @ showNat (http_status r) @ '' '' @ http_statusText r"
  have "loadModel_try modelPath' env' = Inl (newError ?msg)"
    using a http_failure_thrown by blast
  then have "applyResult True (loadModel_try modelPath' env') st'
               = st'\<lparr>error := Some (newError ?msg), isLoading := False\<rparr>"
    by (simp add: applyResult_def)
  moreover have "?msg \<noteq> ''Model validation failed - invalid structure''" by simp
  moreover have "error_name (newError ?msg)
                   = error_name (newError ''Model validation failed - invalid structure'')"
    by (simp add: newError_def)
  ultimately show "\<exists>msg. applyResult True (loadModel_try modelPath' env') st'
                       = st'\<lparr>error := Some (newError msg), isLoading := False\<rparr>
                     \<and> msg \<noteq> ''Model validation failed - invalid structure''
                     \<and> error_name (newError msg)
                         = error_name (newError ''Model validation failed - invalid structure'')"
    by blast
next
  assume "loadModel_try modelPath' env' = Inr None"
  then show "applyResult True (loadModel_try modelPath' env') st'
                = st'\<lparr>error := Some (newError ''No model was loaded''), isLoading := False\<rparr>"
    by (simp add: applyResult_def)
next
  assume "loadModel_try modelPath' env' = Inl e"
  then show "applyResult True (loadModel_try modelPath' env') st'
                = st'\<lparr>error := Some e, isLoading := False\<rparr>"
    by (simp add: applyResult_def)
qed

lemma emptyScene_loaded: "loadModel_try getStadiumModelPath emptySceneEnv = Inr (Some emptySceneModel)"
  by (simp add: loadModel_try_def emptySceneEnv_def getStadiumModelPath_def STADIUM_MODEL_PATH_def
        endsWith_def toLowerCase_def toLowerChar_def)

lemma emptyScene_invalid: "\<not> isValidModel (Some emptySceneModel)"
  by (simp add: isValidModel_def emptySceneModel_def)

lemma notFound_thrown:
  "loadModel_try getStadiumModelPath notFoundEnv = Inl (newError ''Failed to fetch model: 404 Not Found'')"
  by code_simp

text \<open>
  Claim C4 as stated fails: the error reported for a scene without children and the error
  reported for a missing file are of the same kind, \<open>Error\<close>.
\<close>

theorem empty_geometry_same_kind:
  "map_option error_name
     (error (applyResult True (loadModel_try getStadiumModelPath emptySceneEnv)
               (visible (load None initialProvider))))
     = Some ''Error''
   \<and> map_option error_name
     (error (applyResult True (loadModel_try getStadiumModelPath notFoundEnv)
               (visible (load None initialProvider))))
     = Some ''Error''"
  by (simp add: emptyScene_loaded emptyScene_invalid notFound_thrown applyResult_def newError_def)

theorem empty_geometry_report_witness:
  "\<not> isValidModel (Some emptySceneModel)
   \<and> error (applyResult True (loadModel_try getStadiumModelPath emptySceneEnv)
              (visible (load None initialProvider)))
       = Some (newError ''Model validation failed - invalid structure'')
   \<and> isLoading (applyResult True (loadModel_try getStadiumModelPath emptySceneEnv)
              (visible (load None initialProvider))) = False
   \<and> error (applyResult True (loadModel_try getStadiumModelPath notFoundEnv)
              (visible (load None initialProvider)))
       \<noteq> Some (newError ''Model validation failed - invalid structure'')"
proof -
  let ?st = "visible (load None initialProvider)"
  have nf: "env_fetch notFoundEnv = Resolved \<lparr>http_ok = False, http_status = 404, http_statusText = ''Not Found''\<rparr>
            \<and> \<not> http_ok \<lparr>http_ok = False, http_status = 404, http_statusText = ''Not Found''\<rparr>"
    by (simp add: notFoundEnv_def)
  from empty_geometry_report [OF emptyScene_loaded emptyScene_invalid,
      where st = ?st and env' = notFoundEnv and modelPath' = getStadiumModelPath and st' = ?st
        and r = "\<lparr>http_ok = False, http_status = 404, http_statusText = ''Not Found''\<rparr>"] nf
  have a: "applyResult True (loadModel_try getStadiumModelPath emptySceneEnv) ?st
           = ?st\<lparr>error := Some (newError ''Model validation failed - invalid structure''),
                isLoading := False\<rparr>"
    and b: "\<exists>msg. applyResult True (loadModel_try getStadiumModelPath notFoundEnv) ?st
                       = ?st\<lparr>error := Some (newError msg), isLoading := False\<rparr>
                     \<and> msg \<noteq> ''Model validation failed - invalid structure''
                     \<and> error_name (newError msg)
                         = error_name (newError ''Model validation failed - invalid structure'')"
    by blast+
  from b obtain msg where
    m1: "applyResult True (loadModel_try getStadiumModelPath notFoundEnv) ?st
           = ?st\<lparr>error := Some (newError msg), isLoading := False\<rparr>"
    and m2: "msg \<noteq> ''Model validation failed - invalid structure''" by blast
  from m2 have "newError msg \<noteq> newError ''Model validation failed - invalid structure''"
    by (simp add: newError_def)
  with a m1 emptyScene_invalid show ?thesis by simp
qed

section \<open>An import without seats\<close>

lemma length_enhanceSeats: "length (enhanceSeats seats) = length seats"
  by (simp add: enhanceSeats_def)

lemma length_parseAndGenerateSeats:
  "length (parseAndGenerateSeats text) = length (parseVectorCoordinates text)"
  by (simp add: parseAndGenerateSeats_def generateSeatsFromCoordinates_def
        convertToThreeCoordinates_def)

lemma loadSeatsFromFile_failure:
  "loadSeatsFromFile_try fetched = Inl e \<Longrightarrow> loadSeatsFromFile fetched = []"
  by (simp add: loadSeatsFromFile_def)

lemma loadSeatsFromFile_cases:
  "loadSeatsFromFile fetched =
     (case fetched of
        Rejected e \<Rightarrow> []
      | Resolved r \<Rightarrow>
          if \<not> resp_ok r then []
          else (case resp_text r of
                  Rejected e \<Rightarrow> []
                | Resolved text \<Rightarrow> enhanceSeats (parseAndGenerateSeats text)))"
  by (simp add: loadSeatsFromFile_def loadSeatsFromFile_try_def split: settled.splits)

text \<open>
  Claim C10. \<open>loadSeatsFromFile\<close> gives the empty array, and throws nothing, when the fetch
  is rejected, when the response is not ok, when the body cannot be read and when the text
  has no coordinates. An empty result leaves the seats of the application as they were on
  every path: the effect at mount time, the reset to the seats of the file, the handler of
  imported seats, and the import of pasted text. Whenever one of these paths does change
  the seats, the new seats are the non-empty list that was produced.
\<close>

theorem empty_import_keeps_seats:
  "(loadSeatsFromFile_try fetched = Inl e \<longrightarrow> loadSeatsFromFile fetched = [])
   \<and> loadSeatsFromFile (Rejected e) = []
   \<and> (\<not> resp_ok r \<longrightarrow> loadSeatsFromFile (Resolved r) = [])
   \<and> (resp_text r = Rejected e \<longrightarrow> loadSeatsFromFile (Resolved r) = [])
   \<and> (resp_text r = Resolved content \<and> parseVectorCoordinates content = [] \<longrightarrow> loadSeatsFromFile (Resolved r) = [])
   \<and> (loadSeatsFromFile fetched = [] \<longrightarrow>
        availableSeats (loadSeats fetched s) = availableSeats s
        \<and> availableSeats (resetToFileSeats fetched s) = availableSeats s)
   \<and> handleSeatsImported [] s = s
   \<and> (parseAndGenerateSeats coordinates = [] \<longrightarrow> handleImport coordinates handleSeatsImported s = s)
   \<and> (availableSeats (loadSeats fetched s) \<noteq> availableSeats s \<longrightarrow>
        loadSeatsFromFile fetched \<noteq> [] \<and> availableSeats (loadSeats fetched s) = loadSeatsFromFile fetched)
   \<and> (availableSeats (resetToFileSeats fetched s) \<noteq> availableSeats s \<longrightarrow>
        loadSeatsFromFile fetched \<noteq> []
        \<and> availableSeats (resetToFileSeats fetched s) = loadSeatsFromFile fetched)
   \<and> (availableSeats (handleSeatsImported seats s) \<noteq> availableSeats s \<longrightarrow>
        seats \<noteq> [] \<and> availableSeats (handleSeatsImported seats s) = seats)
   \<and> (availableSeats (handleImport coordinates handleSeatsImported s) \<noteq> availableSeats s \<longrightarrow>
        parseAndGenerateSeats coordinates \<noteq> []
        \<and> availableSeats (handleImport coordinates handleSeatsImported s)
            = parseAndGenerateSeats coordinates)"
proof (intro conjI impI)
  show "loadSeatsFromFile fetched = []" if "loadSeatsFromFile_try fetched = Inl e"
    using that by (rule loadSeatsFromFile_failure)
  show "loadSeatsFromFile (Rejected e) = []" by (simp add: loadSeatsFromFile_cases)
  show "loadSeatsFromFile (Resolved r) = []" if "\<not> resp_ok r"
    using that by (simp add: loadSeatsFromFile_cases)
  show "loadSeatsFromFile (Resolved r) = []" if "resp_text r = Rejected e"
    using that by (simp add: loadSeatsFromFile_cases)
  show "loadSeatsFromFile (Resolved r) = []"
    if "resp_text r = Resolved content \<and> parseVectorCoordinates content = []"
  proof -
    from that have "length (enhanceSeats (parseAndGenerateSeats content)) = 0"
      by (simp add: length_enhanceSeats length_parseAndGenerateSeats)
    then show ?thesis using that by (simp add: loadSeatsFromFile_cases)
  qed
  show "availableSeats (loadSeats fetched s) = availableSeats s" if "loadSeatsFromFile fetched = []"
    using that by (simp add: loadSeats_def Let_def)
  show "availableSeats (resetToFileSeats fetched s) = availableSeats s" if "loadSeatsFromFile fetched = []"
    using that by (simp add: resetToFileSeats_def Let_def)
  show "handleSeatsImported [] s = s" by (simp add: handleSeatsImported_def)
  show "handleImport coordinates handleSeatsImported s = s" if "parseAndGenerateSeats coordinates = []"
    using that by (simp add: handleImport_def Let_def)
  show "loadSeatsFromFile fetched \<noteq> []" if "availableSeats (loadSeats fetched s) \<noteq> availableSeats s"
    using that by (auto simp: loadSeats_def Let_def)
  show "availableSeats (loadSeats fetched s) = loadSeatsFromFile fetched"
    if "availableSeats (loadSeats fetched s) \<noteq> availableSeats s"
    using that by (auto simp: loadSeats_def Let_def split: if_splits)
  show "loadSeatsFromFile fetched \<noteq> []"
    if "availableSeats (resetToFileSeats fetched s) \<noteq> availableSeats s"
    using that by (auto simp: resetToFileSeats_def Let_def)
  show "availableSeats (resetToFileSeats fetched s) = loadSeatsFromFile fetched"
    if "availableSeats (resetToFileSeats fetched s) \<noteq> availableSeats s"
    using that by (auto simp: resetToFileSeats_def Let_def split: if_splits)
  show "seats \<noteq> []" if "availableSeats (handleSeatsImported seats s) \<noteq> availableSeats s"
    using that by (auto simp: handleSeatsImported_def)
  show "availableSeats (handleSeatsImported seats s) = seats"
    if "availableSeats (handleSeatsImported seats s) \<noteq> availableSeats s"
    using that by (auto simp: handleSeatsImported_def split: if_splits)
  show "parseAndGenerateSeats coordinates \<noteq> []"
    if "availableSeats (handleImport coordinates handleSeatsImported s) \<noteq> availableSeats s"
    using that by (auto simp: handleImport_def Let_def split: if_splits)
  show "availableSeats (handleImport coordinates handleSeatsImported s) = parseAndGenerateSeats coordinates"
    if "availableSeats (handleImport coordinates handleSeatsImported s) \<noteq> availableSeats s"
    using that by (auto simp: handleImport_def handleSeatsImported_def Let_def split: if_splits)
qed

theorem empty_import_keeps_seats_witness:
  "loadSeatsFromFile (Rejected (JsError ''TypeError'' ''Failed to fetch'')) = []
   \<and> availableSeats (loadSeats (Rejected (JsError ''TypeError'' ''Failed to fetch'')) initialApp)
       = availableSeats initialApp
   \<and> availableSeats (resetToFileSeats
         (Resolved \<lparr>resp_ok = False, resp_status = 404, resp_statusText = ''Not Found'',
                    resp_text = Resolved ''<Vector (1, 2, 3)>''\<rparr>) initialApp)
       = availableSeats initialApp
   \<and> loadSeatsFromFile
         (Resolved \<lparr>resp_ok = True, resp_status = 200, resp_statusText = ''OK'',
                    resp_text = Rejected (JsError ''TypeError'' ''body stream'')\<rparr>) = []
   \<and> loadSeatsFromFile
         (Resolved \<lparr>resp_ok = True, resp_status = 200, resp_statusText = ''OK'',
                    resp_text = Resolved ''no coordinates here''\<rparr>) = []
   \<and> handleImport ''bad line'' handleSeatsImported initialApp = initialApp
   \<and> availableSeats (handleSeatsImported [defaultSeat ''A1'' ''A'' 1 1 150 (-5) 2 10] initialApp)
       = [defaultSeat ''A1'' ''A'' 1 1 150 (-5) 2 10]
   \<and> availableSeats (handleImport ''<Vector (1, 2, 3)>'' handleSeatsImported initialApp)
       = parseAndGenerateSeats ''<Vector (1, 2, 3)>''
   \<and> length (availableSeats (loadSeats
         (Resolved \<lparr>resp_ok = True, resp_status = 200, resp_statusText = ''OK'',
                    resp_text = Resolved ''<Vector (1, 2, 3)>''\<rparr>) initialApp)) = 1
   \<and> length (availableSeats (resetToFileSeats
         (Resolved \<lparr>resp_ok = True, resp_status = 200, resp_statusText = ''OK'',
                    resp_text = Resolved ''<Vector (1, 2, 3)>''\<rparr>) initialApp)) = 1"
proof -
  let ?e = "JsError ''TypeError'' ''Failed to fetch''"
  let ?r404 = "\<lparr>resp_ok = False, resp_status = 404, resp_statusText = ''Not Found'',
                 resp_text = Resolved ''<Vector (1, 2, 3)>''\<rparr>"
  let ?e2 = "JsError ''TypeError'' ''body stream''"
  let ?rbody = "\<lparr>resp_ok = True, resp_status = 200, resp_statusText = ''OK'',
                 resp_text = Rejected ?e2\<rparr>"
  let ?rnone = "\<lparr>resp_ok = True, resp_status = 200, resp_statusText = ''OK'',
                 resp_text = Resolved ''no coordinates here''\<rparr>"
  let ?rone = "\<lparr>resp_ok = True, resp_status = 200, resp_statusText = ''OK'',
                 resp_text = Resolved ''<Vector (1, 2, 3)>''\<rparr>"
  let ?seat = "defaultSeat ''A1'' ''A'' 1 1 150 (-5) 2 10"
  have six: "length DEFAULT_SEATS = 6" by (simp add: DEFAULT_SEATS_def)
  have av: "availableSeats initialApp = DEFAULT_SEATS" by (simp add: initialApp_def)
  have ne: "xs \<noteq> DEFAULT_SEATS" if "length xs = 1" for xs :: "seat list"
  proof
    assume "xs = DEFAULT_SEATS"
    then have "length xs = length DEFAULT_SEATS" by simp
    with six that show False by simp
  qed
  have h1: "loadSeatsFromFile_try (Rejected ?e) = Inl ?e" by (simp add: loadSeatsFromFile_try_def)
  have h2: "\<not> resp_ok ?r404" by simp
  have h3: "resp_text ?rbody = Rejected ?e2" by simp
  have h4: "resp_text ?rnone = Resolved ''no coordinates here''
            \<and> parseVectorCoordinates ''no coordinates here'' = []" by code_simp
  have h5: "parseAndGenerateSeats ''bad line'' = []" by code_simp
  have one: "length (parseVectorCoordinates ''<Vector (1, 2, 3)>'') = 1" by code_simp
  then have one': "length (loadSeatsFromFile (Resolved ?rone)) = 1"
    by (simp add: loadSeatsFromFile_cases length_enhanceSeats length_parseAndGenerateSeats)
  have l1: "length (availableSeats (loadSeats (Resolved ?rone) initialApp)) = 1"
    using one' by (auto simp: loadSeats_def Let_def)
  have l2: "length (availableSeats (resetToFileSeats (Resolved ?rone) initialApp)) = 1"
    using one' by (auto simp: resetToFileSeats_def Let_def)
  have h6: "availableSeats (loadSeats (Resolved ?rone) initialApp) \<noteq> availableSeats initialApp"
    using ne [OF l1] av by simp
  have h7: "availableSeats (resetToFileSeats (Resolved ?rone) initialApp) \<noteq> availableSeats initialApp"
    using ne [OF l2] av by simp
  have h8: "availableSeats (handleSeatsImported [?seat] initialApp) \<noteq> availableSeats initialApp"
    using ne [of "[?seat]"] av by (simp add: handleSeatsImported_def)
  have one'': "length (parseAndGenerateSeats ''<Vector (1, 2, 3)>'') = 1"
    using one by (simp add: length_parseAndGenerateSeats)
  have "trim ''<Vector (1, 2, 3)>'' \<noteq> []" by code_simp
  then have "availableSeats (handleImport ''<Vector (1, 2, 3)>'' handleSeatsImported initialApp)
               = parseAndGenerateSeats ''<Vector (1, 2, 3)>''"
    using one'' by (auto simp: handleImport_def handleSeatsImported_def Let_def)
  then have h9: "availableSeats (handleImport ''<Vector (1, 2, 3)>'' handleSeatsImported initialApp)
                   \<noteq> availableSeats initialApp"
    using ne [OF one''] av by simp
  from empty_import_keeps_seats
    [where fetched = "Rejected ?e" and e = ?e and r = ?r404 and s = initialApp
       and coordinates = "''bad line''" and seats = "[?seat]" and content = "''<Vector (1, 2, 3)>''"]
    h1 h2 h5 h8
  have a: "loadSeatsFromFile (Rejected ?e) = []"
    "availableSeats (loadSeats (Rejected ?e) initialApp) = availableSeats initialApp"
    "loadSeatsFromFile (Resolved ?r404) = []"
    "handleImport ''bad line'' handleSeatsImported initialApp = initialApp"
    "availableSeats (handleSeatsImported [?seat] initialApp) = [?seat]"
    by blast+
  from empty_import_keeps_seats
    [where fetched = "Resolved ?r404" and e = ?e2 and r = ?rbody and s = initialApp
       and coordinates = "''<Vector (1, 2, 3)>''" and seats = "[]" and content = "''x''"]
    a(3) h3 h9
  have b: "availableSeats (resetToFileSeats (Resolved ?r404) initialApp) = availableSeats initialApp"
    "loadSeatsFromFile (Resolved ?rbody) = []"
    "availableSeats (handleImport ''<Vector (1, 2, 3)>'' handleSeatsImported initialApp)
       = parseAndGenerateSeats ''<Vector (1, 2, 3)>''"
    by blast+
  from empty_import_keeps_seats
    [where fetched = "Resolved ?rone" and e = ?e2 and r = ?rnone and s = initialApp
       and coordinates = "''bad line''" and seats = "[?seat]" and content = "''no coordinates here''"]
    h4 h6 h7
  have c: "loadSeatsFromFile (Resolved ?rnone) = []"
    "availableSeats (loadSeats (Resolved ?rone) initialApp) = loadSeatsFromFile (Resolved ?rone)"
    "availableSeats (resetToFileSeats (Resolved ?rone) initialApp) = loadSeatsFromFile (Resolved ?rone)"
    by blast+
  from a(1,2,4,5) b c(1) l1 l2 show ?thesis by blast
qed

end
